theory Spec2Isabelle
  imports Complex_Main "HOL-Library.Multiset" "HOL-Library.Char_ord" "HOL-Library.List_Lexorder"
begin

section \<open>Data model\<close>

text \<open>
  The dashboard (\<^verbatim>\<open>app.py\<close>, \<^verbatim>\<open>dash.py\<close>) works on one pandas data frame read from a CSV
  file. The two files agree on every function modelled here except \<^verbatim>\<open>create_product_insights\<close>,
  where they pass different hover columns to the scatter plot; \<^verbatim>\<open>create_rfm_analysis\<close> and
  \<^verbatim>\<open>create_payment_analysis\<close> are in \<^verbatim>\<open>app.py\<close> only. A frame is modelled as
  the list of its column names together with the list of its rows. A row is a record with one
  field per column the code reads or writes. A cell is an \<open>option\<close>: \<open>None\<close> is the missing
  value of pandas (NaN, NaT). Text columns hold strings, numeric columns hold numbers (modelled
  as exact reals: rounding of binary floating point is not represented), and the five date
  columns hold values of type \<open>'t\<close>: text (\<open>string\<close>) in the frame as read from the file,
  timestamps (\<open>int\<close>, nanoseconds since the epoch, as in datetime64[ns]) after parsing.

  The field of a row for a column that is not listed in \<open>columns\<close> carries no information:
  every access goes through \<open>series\<close>, which raises KeyError for an absent column.
\<close>

datatype error =
    FileNotFoundError string
  | KeyError string
  | IndexError
  | ValueError string

record 't order_row =
  order_id :: "string option"
  customer_unique_id :: "string option"
  customer_state :: "string option"
  customer_city :: "string option"
  product_category_name :: "string option"
  payment_type :: "string option"
  payment_installments :: "real option"
  price :: "real option"
  freight_value :: "real option"
  review_score :: "real option"
  order_purchase_timestamp :: "'t option"
  order_approved_at :: "'t option"
  order_delivered_carrier_date :: "'t option"
  order_delivered_customer_date :: "'t option"
  order_estimated_delivery_date :: "'t option"
  total_value :: "real option"
  delivery_time :: "real option"

record 't frame =
  columns :: "string list"
  rows :: "'t order_row list"

text \<open>\<^verbatim>\<open>df[name]\<close>: the column as a list of cells, KeyError when the frame has no such column.\<close>

definition series :: "'t frame \<Rightarrow> string \<Rightarrow> ('t order_row \<Rightarrow> 'a) \<Rightarrow> error + 'a list" where
  "series df name field =
     (if name \<in> set (columns df) then Inr (map field (rows df)) else Inl (KeyError name))"

text \<open>
  \<^verbatim>\<open>df[name] = values\<close>: overwrites the column, or appends it after the existing ones.
  The values assigned in this program are always computed from columns of the same frame, so
  they have one value per row.
\<close>

definition assign ::
  "'t frame \<Rightarrow> string \<Rightarrow> ('t order_row \<Rightarrow> 'a \<Rightarrow> 't order_row) \<Rightarrow> 'a list \<Rightarrow> 't frame" where
  "assign df name upd vals =
     \<lparr>columns = (if name \<in> set (columns df) then columns df else columns df @ [name]),
      rows = map2 upd (rows df) vals\<rparr>"

section \<open>Column arithmetic\<close>

text \<open>Elementwise \<^verbatim>\<open>+\<close> of two numeric columns: missing when either operand is missing.\<close>

fun add_cell :: "real option \<Rightarrow> real option \<Rightarrow> real option" where
  "add_cell (Some a) (Some b) = Some (a + b)"
| "add_cell _ _ = None"

definition add_series :: "real option list \<Rightarrow> real option list \<Rightarrow> real option list" where
  "add_series xs ys = map2 add_cell xs ys"

text \<open>Nanoseconds in a day: the unit of \<^verbatim>\<open>.dt.days\<close> and \<^verbatim>\<open>.dt.date\<close>.\<close>

definition day_ns :: int where
  "day_ns = 86400000000000"

text \<open>Elementwise \<^verbatim>\<open>-\<close> of two timestamp columns: a timedelta in nanoseconds, NaT when either is NaT.\<close>

fun sub_cell :: "int option \<Rightarrow> int option \<Rightarrow> int option" where
  "sub_cell (Some a) (Some b) = Some (a - b)"
| "sub_cell _ _ = None"

text \<open>
  \<^verbatim>\<open>.days\<close> of a timedelta: the number of whole days, rounded towards minus infinity
  (Timedelta('-1 days +23:00:00').days is -1); missing for NaT.
\<close>

definition td_days :: "int option \<Rightarrow> int option" where
  "td_days d = map_option (\<lambda>n. n div day_ns) d"

text \<open>\<^verbatim>\<open>.dt.date\<close> of a timestamp: the calendar day, as a day number since the epoch; NaT stays NaT.\<close>

definition dt_date :: "int option \<Rightarrow> int option" where
  "dt_date t = map_option (\<lambda>n. n div day_ns) t"

section \<open>load_data\<close>

text \<open>
  \<^verbatim>\<open>pd.to_datetime(column, errors='coerce')\<close>. The date parser of pandas is a parameter
  \<open>parse\<close>: given the column (pandas may infer the format from it) and one text value it
  returns the timestamp, or \<open>None\<close> when the text cannot be parsed. With
  \<^verbatim>\<open>errors='coerce'\<close> an unparseable value becomes NaT; a missing value stays missing.
\<close>

definition to_datetime ::
  "(string option list \<Rightarrow> string \<Rightarrow> int option) \<Rightarrow> string option list \<Rightarrow> int option list" where
  "to_datetime parse xs = map (\<lambda>c. case c of None \<Rightarrow> None | Some s \<Rightarrow> parse xs s) xs"

text \<open>
  The loop over \<^verbatim>\<open>date_columns\<close>: each of the five columns that the frame has is replaced
  by its parsed version; the other columns are kept. The result is built row by row from
  the parsed columns.
\<close>

definition parse_column ::
  "(string option list \<Rightarrow> string \<Rightarrow> int option) \<Rightarrow> string frame \<Rightarrow> string \<Rightarrow>
   (string order_row \<Rightarrow> string option) \<Rightarrow> int option list" where
  "parse_column parse df name field =
     (if name \<in> set (columns df) then to_datetime parse (map field (rows df))
      else replicate (length (rows df)) None)"

definition parse_dates ::
  "(string option list \<Rightarrow> string \<Rightarrow> int option) \<Rightarrow> string frame \<Rightarrow> int frame" where
  "parse_dates parse df =
     (let purchase = parse_column parse df ''order_purchase_timestamp'' order_purchase_timestamp;
          approved = parse_column parse df ''order_approved_at'' order_approved_at;
          carrier = parse_column parse df ''order_delivered_carrier_date'' order_delivered_carrier_date;
          customer = parse_column parse df ''order_delivered_customer_date'' order_delivered_customer_date;
          estimated = parse_column parse df ''order_estimated_delivery_date'' order_estimated_delivery_date
      in \<lparr>columns = columns df,
          rows = map (\<lambda>i. let r = rows df ! i in
                   \<lparr>order_id = order_id r,
                    customer_unique_id = customer_unique_id r,
                    customer_state = customer_state r,
                    customer_city = customer_city r,
                    product_category_name = product_category_name r,
                    payment_type = payment_type r,
                    payment_installments = payment_installments r,
                    price = price r,
                    freight_value = freight_value r,
                    review_score = review_score r,
                    order_purchase_timestamp = purchase ! i,
                    order_approved_at = approved ! i,
                    order_delivered_carrier_date = carrier ! i,
                    order_delivered_customer_date = customer ! i,
                    order_estimated_delivery_date = estimated ! i,
                    total_value = total_value r,
                    delivery_time = delivery_time r\<rparr>)
                 [0..<length (rows df)]\<rparr>)"

text \<open>The message of the KeyError that \<^verbatim>\<open>load_data\<close> raises itself.\<close>

definition missing_required_columns :: string where
  "missing_required_columns =
     ''The required columns 'price' and 'freight_value' are missing from the dataset.''"

text \<open>The second half of \<^verbatim>\<open>load_data\<close>: the derived columns.\<close>

definition add_total_value :: "int frame \<Rightarrow> error + int frame" where
  "add_total_value df =
     (if ''price'' \<in> set (columns df) \<and> ''freight_value'' \<in> set (columns df)
      then Inr (assign df ''total_value'' (\<lambda>r v. r\<lparr>total_value := v\<rparr>)
                  (add_series (map price (rows df)) (map freight_value (rows df))))
      else Inl (KeyError missing_required_columns))"

definition add_delivery_time :: "int frame \<Rightarrow> int frame" where
  "add_delivery_time df =
     (if ''order_delivered_customer_date'' \<in> set (columns df)
         \<and> ''order_purchase_timestamp'' \<in> set (columns df)
      then assign df ''delivery_time'' (\<lambda>r v. r\<lparr>delivery_time := v\<rparr>)
             (map (\<lambda>d. map_option of_int (td_days d))
                (map2 sub_cell (map order_delivered_customer_date (rows df))
                               (map order_purchase_timestamp (rows df))))
      else df)"

text \<open>
  \<^verbatim>\<open>load_data(file_path)\<close>. The file system is a map from paths to the tables that
  \<^verbatim>\<open>pd.read_csv\<close> reads: \<^verbatim>\<open>os.path.exists\<close> holds exactly for the paths in its domain.
\<close>

definition load_data ::
  "(string option list \<Rightarrow> string \<Rightarrow> int option) \<Rightarrow> (string \<Rightarrow> string frame option) \<Rightarrow> string \<Rightarrow>
   error + int frame" where
  "load_data parse fs file_path =
     (case fs file_path of
        None \<Rightarrow> Inl (FileNotFoundError file_path)
      | Some csv \<Rightarrow>
          (case add_total_value (parse_dates parse csv) of
             Inl e \<Rightarrow> Inl e
           | Inr df \<Rightarrow> Inr (add_delivery_time df)))"

section \<open>The sidebar filters\<close>

text \<open>
  Lines "Apply filters" of \<^verbatim>\<open>main\<close>. \<^verbatim>\<open>date_range\<close> is the tuple returned by the date
  picker (calendar days, here day numbers since the epoch); \<^verbatim>\<open>selected_category\<close> and
  \<^verbatim>\<open>selected_payment\<close> are entries of \<^verbatim>\<open>['All'] + list(column.unique())\<close>, so each is a
  string or the missing value.
\<close>

text \<open>\<^verbatim>\<open>t[i]\<close> on a tuple, for the constant indices 0 and 1 the code uses.\<close>

definition getitem :: "'a list \<Rightarrow> nat \<Rightarrow> error + 'a" where
  "getitem xs i = (if i < length xs then Inr (xs ! i) else Inl IndexError)"

text \<open>Comparison of a column of dates with one date: a missing date compares false.\<close>

fun date_ge :: "int option \<Rightarrow> int \<Rightarrow> bool" where
  "date_ge (Some d) lo = (lo \<le> d)"
| "date_ge None lo = False"

fun date_le :: "int option \<Rightarrow> int \<Rightarrow> bool" where
  "date_le (Some d) hi = (d \<le> hi)"
| "date_le None hi = False"

text \<open>\<^verbatim>\<open>column == value\<close>: a missing value is equal to nothing, not even to a missing value.\<close>

fun str_eq :: "string option \<Rightarrow> string option \<Rightarrow> bool" where
  "str_eq (Some a) (Some b) = (a = b)"
| "str_eq _ _ = False"

text \<open>\<^verbatim>\<open>m1 & m2\<close> on boolean columns.\<close>

definition and_mask :: "bool list \<Rightarrow> bool list \<Rightarrow> bool list" where
  "and_mask m1 m2 = map2 (\<and>) m1 m2"

text \<open>\<^verbatim>\<open>df[mask]\<close>: the rows at which the mask is true, in their order; the columns are kept.\<close>

definition select_rows :: "'t frame \<Rightarrow> bool list \<Rightarrow> 't frame" where
  "select_rows df m = df\<lparr>rows := map snd (filter fst (zip m (rows df)))\<rparr>"

definition mask :: "int frame \<Rightarrow> int list \<Rightarrow> string option \<Rightarrow> string option \<Rightarrow> error + bool list" where
  "mask df date_range selected_category selected_payment =
     (case series df ''order_purchase_timestamp'' order_purchase_timestamp of
        Inl e \<Rightarrow> Inl e
      | Inr ts \<Rightarrow>
     (case getitem date_range 0 of
        Inl e \<Rightarrow> Inl e
      | Inr lo \<Rightarrow>
     (case getitem date_range 1 of
        Inl e \<Rightarrow> Inl e
      | Inr hi \<Rightarrow>
     (let m0 = and_mask (map (\<lambda>t. date_ge (dt_date t) lo) ts)
                        (map (\<lambda>t. date_le (dt_date t) hi) ts)
      in
     (case (if selected_category \<noteq> Some ''All''
            then (case series df ''product_category_name'' product_category_name of
                    Inl e \<Rightarrow> Inl e
                  | Inr cs \<Rightarrow> Inr (and_mask m0 (map (\<lambda>c. str_eq c selected_category) cs)))
            else Inr m0) of
        Inl e \<Rightarrow> Inl e
      | Inr m1 \<Rightarrow>
     (if selected_payment \<noteq> Some ''All''
      then (case series df ''payment_type'' payment_type of
              Inl e \<Rightarrow> Inl e
            | Inr ps \<Rightarrow> Inr (and_mask m1 (map (\<lambda>p. str_eq p selected_payment) ps)))
      else Inr m1))))))"

definition filtered_df ::
  "int frame \<Rightarrow> int list \<Rightarrow> string option \<Rightarrow> string option \<Rightarrow> error + int frame" where
  "filtered_df df date_range selected_category selected_payment =
     (case mask df date_range selected_category selected_payment of
        Inl e \<Rightarrow> Inl e
      | Inr m \<Rightarrow> Inr (select_rows df m))"

section \<open>Reductions and group-by\<close>

text \<open>The reductions of pandas skip missing values.\<close>

fun dropna :: "'a option list \<Rightarrow> 'a list" where
  "dropna [] = []"
| "dropna (None # xs) = dropna xs"
| "dropna (Some x # xs) = x # dropna xs"

text \<open>\<^verbatim>\<open>.max()\<close>: the largest present value, missing when there is none.\<close>

definition series_max :: "('a::linorder) option list \<Rightarrow> 'a option" where
  "series_max xs = (case dropna xs of [] \<Rightarrow> None | y # ys \<Rightarrow> Some (fold max ys y))"

text \<open>
  \<^verbatim>\<open>.sum()\<close>: the sum of the present values, 0 when there is none. The sum is that of the
  exact numbers: the model does not round as binary floating point does, so two sums of the
  same numbers taken in different groupings are equal here and need not be equal in the
  program. No theorem below compares sums taken in different groupings.
\<close>

definition series_sum :: "real option list \<Rightarrow> real" where
  "series_sum xs = sum_list (dropna xs)"

text \<open>\<^verbatim>\<open>.mean()\<close>: the mean of the present values, missing when there is none.\<close>

definition series_mean :: "real option list \<Rightarrow> real option" where
  "series_mean xs =
     (if dropna xs = [] then None else Some (sum_list (dropna xs) / real (length (dropna xs))))"

text \<open>\<^verbatim>\<open>.count()\<close> and \<^verbatim>\<open>.nunique()\<close>: the number of present, and of distinct present, values.\<close>

definition series_count :: "'a option list \<Rightarrow> nat" where
  "series_count xs = length (dropna xs)"

definition series_nunique :: "'a option list \<Rightarrow> nat" where
  "series_nunique xs = length (remdups (dropna xs))"

text \<open>
  \<^verbatim>\<open>df.groupby(keys)\<close> with the defaults \<^verbatim>\<open>sort=True, dropna=True\<close>: one group per distinct
  present key, in increasing key order; a group holds the rows with that key, in their order.
  Rows whose key is missing belong to no group.
\<close>

definition groupby :: "('k::linorder) option list \<Rightarrow> 'r list \<Rightarrow> ('k \<times> 'r list) list" where
  "groupby ks rs =
     map (\<lambda>k. (k, map snd (filter (\<lambda>kr. fst kr = Some k) (zip ks rs))))
         (sort (remdups (dropna ks)))"

section \<open>calculate_rfm\<close>

record rfm =
  recency :: "int option"
  frequency :: nat
  monetary :: real

definition calculate_rfm :: "int frame \<Rightarrow> error + (string \<times> rfm) list" where
  "calculate_rfm df =
     (case series df ''order_purchase_timestamp'' order_purchase_timestamp of
        Inl e \<Rightarrow> Inl e
      | Inr ts \<Rightarrow>
     (let max_date = series_max ts in
     (case series df ''customer_unique_id'' customer_unique_id of
        Inl e \<Rightarrow> Inl e
      | Inr ids \<Rightarrow>
     (case series df ''order_id'' order_id of
        Inl e \<Rightarrow> Inl e
      | Inr _ \<Rightarrow>
     (case series df ''total_value'' total_value of
        Inl e \<Rightarrow> Inl e
      | Inr _ \<Rightarrow>
        Inr (map (\<lambda>(k, g).
                   (k, \<lparr>recency = td_days (sub_cell max_date
                                     (series_max (map order_purchase_timestamp g))),
                        frequency = series_count (map order_id g),
                        monetary = series_sum (map total_value g)\<rparr>))
                 (groupby ids (rows df))))))))"

section \<open>The other aggregations\<close>

text \<open>
  Each \<^verbatim>\<open>create_...\<close> function computes a summary with pandas and hands it to the plotting
  library. The model is the summary, together with the two checks of the plotting library
  that can raise on it: the other plotting calls name columns that the summary has and put
  no condition on its values.
\<close>

text \<open>
  \<^verbatim>\<open>sort_values\<close> sorts on the value with an algorithm that is not stable: the order in
  which it leaves rows of equal value is not specified. That order is a parameter \<open>tie\<close>,
  which ranks the rows of the table being sorted; rows of equal value come out by increasing
  rank. \<^verbatim>\<open>sort_values(ascending=False)\<close> sorts the reversed table and reverses the result.
\<close>

definition sort_values_ascending ::
  "('a list \<Rightarrow> 'a \<Rightarrow> nat) \<Rightarrow> ('a \<Rightarrow> 'v::linorder) \<Rightarrow> 'a list \<Rightarrow> 'a list" where
  "sort_values_ascending tie value xs = sort_key value (sort_key (tie xs) xs)"

definition sort_values_descending ::
  "('a list \<Rightarrow> 'a \<Rightarrow> nat) \<Rightarrow> ('a \<Rightarrow> 'v::linorder) \<Rightarrow> 'a list \<Rightarrow> 'a list" where
  "sort_values_descending tie value xs = rev (sort_values_ascending tie value (rev xs))"

text \<open>
  \<^verbatim>\<open>nlargest(n)\<close>: the n largest values in decreasing order. When the table has more than
  n rows, the first occurrence comes first among equal values; otherwise the table is sorted
  with \<^verbatim>\<open>sort_values(ascending=False)\<close>.
\<close>

definition nlargest ::
  "('a list \<Rightarrow> 'a \<Rightarrow> nat) \<Rightarrow> nat \<Rightarrow> ('a \<Rightarrow> 'v::{linorder,uminus}) \<Rightarrow> 'a list \<Rightarrow> 'a list" where
  "nlargest tie n value xs =
     (if length xs \<le> n then take n (sort_values_descending tie value xs)
      else take n (sort_key (\<lambda>x. - value x) xs))"

text \<open>
  \<^verbatim>\<open>nsmallest(n, column)\<close>: the n smallest present values in increasing order, rows with a
  missing value last; equal values as for \<^verbatim>\<open>nlargest\<close>, with \<^verbatim>\<open>sort_values(ascending=True)\<close>.
\<close>

definition nsmallest ::
  "('a list \<Rightarrow> 'a \<Rightarrow> nat) \<Rightarrow> nat \<Rightarrow> ('a \<Rightarrow> 'v::linorder option) \<Rightarrow> 'a list \<Rightarrow> 'a list" where
  "nsmallest tie n value xs =
     (if length xs \<le> n
      then take n (sort_values_ascending tie (\<lambda>x. the (value x)) (filter (\<lambda>x. value x \<noteq> None) xs)
                   @ filter (\<lambda>x. value x = None) xs)
      else take n (sort_key (\<lambda>x. the (value x)) (filter (\<lambda>x. value x \<noteq> None) xs)
                   @ filter (\<lambda>x. value x = None) xs))"

text \<open>
  The plotting functions of plotly express (\<^verbatim>\<open>px.scatter\<close>) look up every column name they
  are given among the columns of the table (its index is not one of them) and raise
  ValueError, naming the argument, for the first name that is not there.
\<close>

fun px_columns :: "string list \<Rightarrow> (string \<times> string) list \<Rightarrow> error + unit" where
  "px_columns cols [] = Inr ()"
| "px_columns cols ((arg, name) # args) =
     (if name \<in> set cols then px_columns cols args else Inl (ValueError arg))"

text \<open>
  The marker sizes of a scatter plot must be numbers from 0 upwards: a missing or a negative
  size raises ValueError.
\<close>

definition px_marker_size :: "real option list \<Rightarrow> error + unit" where
  "px_marker_size sizes =
     (if list_all (\<lambda>s. case s of None \<Rightarrow> False | Some v \<Rightarrow> 0 \<le> v) sizes then Inr ()
      else Inl (ValueError ''marker.size''))"

record overview =
  total_orders :: nat
  total_revenue :: real
  avg_order_value :: "real option"
  avg_delivery_time :: "real option"

definition create_overview_metrics :: "int frame \<Rightarrow> error + overview" where
  "create_overview_metrics df =
     (case series df ''order_id'' order_id of
        Inl e \<Rightarrow> Inl e
      | Inr ids \<Rightarrow>
     (case series df ''total_value'' total_value of
        Inl e \<Rightarrow> Inl e
      | Inr tv \<Rightarrow>
     (case series df ''delivery_time'' delivery_time of
        Inl e \<Rightarrow> Inl e
      | Inr dt \<Rightarrow>
        Inr \<lparr>total_orders = series_nunique ids,
             total_revenue = series_sum tv,
             avg_order_value = series_mean tv,
             avg_delivery_time = series_mean dt\<rparr>)))"

text \<open>\<^verbatim>\<open>daily_orders\<close>: per calendar day, the number of distinct orders and the revenue.\<close>

definition create_time_series :: "int frame \<Rightarrow> error + (int \<times> nat \<times> real) list" where
  "create_time_series df =
     (case series df ''order_purchase_timestamp'' order_purchase_timestamp of
        Inl e \<Rightarrow> Inl e
      | Inr ts \<Rightarrow>
     (case series df ''order_id'' order_id of
        Inl e \<Rightarrow> Inl e
      | Inr _ \<Rightarrow>
     (case series df ''total_value'' total_value of
        Inl e \<Rightarrow> Inl e
      | Inr _ \<Rightarrow>
        Inr (map (\<lambda>(d, g). (d, series_nunique (map order_id g), series_sum (map total_value g)))
                 (groupby (map dt_date ts) (rows df))))))"

text \<open>\<^verbatim>\<open>state_counts\<close> and \<^verbatim>\<open>city_counts\<close>: distinct customers per state, and for the ten largest cities.\<close>

definition create_customer_demographics ::
  "(string \<Rightarrow> (string \<times> nat) list \<Rightarrow> string \<times> nat \<Rightarrow> nat) \<Rightarrow> int frame \<Rightarrow>
   error + ((string \<times> nat) list \<times> (string \<times> nat) list)" where
  "create_customer_demographics tie df =
     (case series df ''customer_state'' customer_state of
        Inl e \<Rightarrow> Inl e
      | Inr states \<Rightarrow>
     (case series df ''customer_unique_id'' customer_unique_id of
        Inl e \<Rightarrow> Inl e
      | Inr _ \<Rightarrow>
     (let state_counts =
            sort_values_ascending (tie ''customer_state'') snd
              (map (\<lambda>(k, g). (k, series_nunique (map customer_unique_id g)))
                   (groupby states (rows df)))
      in
     (case series df ''customer_city'' customer_city of
        Inl e \<Rightarrow> Inl e
      | Inr cities \<Rightarrow>
        Inr (state_counts,
             nlargest (tie ''customer_city'') 10 (\<lambda>kv. int (snd kv))
               (map (\<lambda>(k, g). (k, series_nunique (map customer_unique_id g)))
                    (groupby cities (rows df))))))))"

text \<open>
  \<^verbatim>\<open>category_sales\<close>: per category (the index of the table) the revenue, the mean delivery
  time and the mean review score, by decreasing revenue. The table is drawn as a bar chart
  and then as a scatter plot \<^verbatim>\<open>px.scatter(category_sales, x='delivery_time',
  y='review_score', color='total_value', size='total_value', hover_data=...)\<close>. The two
  files differ in the one hover column, which is the parameter \<open>hover_data\<close> here.
\<close>

definition product_insights ::
  "string \<Rightarrow>
   ((string \<times> real \<times> real option \<times> real option) list \<Rightarrow>
      string \<times> real \<times> real option \<times> real option \<Rightarrow> nat) \<Rightarrow>
   int frame \<Rightarrow> error + (string \<times> real \<times> real option \<times> real option) list" where
  "product_insights hover_data tie df =
     (case series df ''product_category_name'' product_category_name of
        Inl e \<Rightarrow> Inl e
      | Inr cats \<Rightarrow>
     (case series df ''total_value'' total_value of
        Inl e \<Rightarrow> Inl e
      | Inr _ \<Rightarrow>
     (case series df ''delivery_time'' delivery_time of
        Inl e \<Rightarrow> Inl e
      | Inr _ \<Rightarrow>
     (case series df ''review_score'' review_score of
        Inl e \<Rightarrow> Inl e
      | Inr _ \<Rightarrow>
     (let category_sales =
            sort_values_descending tie (\<lambda>x. fst (snd x))
              (map (\<lambda>(k, g). (k, series_sum (map total_value g),
                                 series_mean (map delivery_time g),
                                 series_mean (map review_score g)))
                   (groupby cats (rows df)))
      in
     (case px_columns [''total_value'', ''delivery_time'', ''review_score'']
             [(''x'', ''delivery_time''), (''y'', ''review_score''),
              (''color'', ''total_value''), (''size'', ''total_value''),
              (''hover_data_0'', hover_data)] of
        Inl e \<Rightarrow> Inl e
      | Inr _ \<Rightarrow>
     (case px_marker_size (map (\<lambda>x. Some (fst (snd x))) category_sales) of
        Inl e \<Rightarrow> Inl e
      | Inr _ \<Rightarrow> Inr category_sales)))))))"

text \<open>
  \<^verbatim>\<open>create_product_insights\<close> of \<^verbatim>\<open>app.py\<close> passes
  \<^verbatim>\<open>hover_data=['product_category_name']\<close>, the name of the index of \<^verbatim>\<open>category_sales\<close>;
  that of \<^verbatim>\<open>dash.py\<close> passes \<^verbatim>\<open>hover_data=['total_value']\<close>.
\<close>

definition create_product_insights ::
  "((string \<times> real \<times> real option \<times> real option) list \<Rightarrow>
      string \<times> real \<times> real option \<times> real option \<Rightarrow> nat) \<Rightarrow>
   int frame \<Rightarrow> error + (string \<times> real \<times> real option \<times> real option) list" where
  "create_product_insights tie df = product_insights ''product_category_name'' tie df"

definition create_product_insights_dash ::
  "((string \<times> real \<times> real option \<times> real option) list \<Rightarrow>
      string \<times> real \<times> real option \<times> real option \<Rightarrow> nat) \<Rightarrow>
   int frame \<Rightarrow> error + (string \<times> real \<times> real option \<times> real option) list" where
  "create_product_insights_dash tie df = product_insights ''total_value'' tie df"

text \<open>
  \<^verbatim>\<open>payment_stats\<close> per payment type, drawn as a pie chart, and \<^verbatim>\<open>installment_stats\<close> per
  number of instalments, drawn as the scatter plot \<^verbatim>\<open>px.scatter(installment_stats,
  x='payment_installments', y='review_score', size='total_value', color='total_value')\<close>,
  whose marker sizes are the mean total values.
\<close>

definition create_payment_analysis ::
  "int frame \<Rightarrow> error + ((string \<times> real \<times> real option) list \<times> (real \<times> real option \<times> real option) list)" where
  "create_payment_analysis df =
     (case series df ''payment_type'' payment_type of
        Inl e \<Rightarrow> Inl e
      | Inr types \<Rightarrow>
     (case series df ''total_value'' total_value of
        Inl e \<Rightarrow> Inl e
      | Inr _ \<Rightarrow>
     (case series df ''review_score'' review_score of
        Inl e \<Rightarrow> Inl e
      | Inr _ \<Rightarrow>
     (case series df ''payment_installments'' payment_installments of
        Inl e \<Rightarrow> Inl e
      | Inr insts \<Rightarrow>
     (let payment_stats =
            map (\<lambda>(k, g). (k, series_sum (map total_value g), series_mean (map review_score g)))
                (groupby types (rows df));
          installment_stats =
            map (\<lambda>(k, g). (k, series_mean (map total_value g), series_mean (map review_score g)))
                (groupby insts (rows df))
      in
     (case px_marker_size (map (\<lambda>x. fst (snd x)) installment_stats) of
        Inl e \<Rightarrow> Inl e
      | Inr _ \<Rightarrow> Inr (payment_stats, installment_stats)))))))"

text \<open>
  \<^verbatim>\<open>create_rfm_analysis\<close>: the five customers with the smallest recency, the five with the
  largest frequency and the five with the largest monetary value.
\<close>

definition create_rfm_analysis ::
  "(string \<Rightarrow> (string \<times> rfm) list \<Rightarrow> string \<times> rfm \<Rightarrow> nat) \<Rightarrow> int frame \<Rightarrow>
   error + ((string \<times> rfm) list \<times> (string \<times> rfm) list \<times> (string \<times> rfm) list)" where
  "create_rfm_analysis tie df =
     (case calculate_rfm df of
        Inl e \<Rightarrow> Inl e
      | Inr t \<Rightarrow>
        Inr (nsmallest (tie ''recency'') 5 (\<lambda>x. recency (snd x)) t,
             nlargest (tie ''frequency'') 5 (\<lambda>x. int (frequency (snd x))) t,
             nlargest (tie ''monetary'') 5 (\<lambda>x. monetary (snd x)) t))"

section \<open>Example tables\<close>

text \<open>Small concrete inputs on which the theorems below are instantiated.\<close>

definition blank_row :: "'t order_row" where
  "blank_row =
     \<lparr>order_id = None, customer_unique_id = None, customer_state = None,
      customer_city = None, product_category_name = None, payment_type = None,
      payment_installments = None, price = None, freight_value = None, review_score = None,
      order_purchase_timestamp = None, order_approved_at = None,
      order_delivered_carrier_date = None, order_delivered_customer_date = None,
      order_estimated_delivery_date = None, total_value = None, delivery_time = None\<rparr>"

text \<open>A ranking of equal values that ranks every row 0: equal values keep their order.\<close>

definition keep_order :: "'a list \<Rightarrow> 'a \<Rightarrow> nat" where
  "keep_order xs x = 0"

definition keep_order_by :: "string \<Rightarrow> 'a list \<Rightarrow> 'a \<Rightarrow> nat" where
  "keep_order_by column = keep_order"

text \<open>A toy date parser that knows three texts.\<close>

definition example_parse :: "string option list \<Rightarrow> string \<Rightarrow> int option" where
  "example_parse col s =
     (if s = ''1970-01-01'' then Some 0
      else if s = ''1970-01-06'' then Some (5 * day_ns)
      else if s = ''1970-01-08 12:00'' then Some (7 * day_ns + 43200000000000)
      else None)"

definition csv_columns :: "string list" where
  "csv_columns =
     [''order_id'', ''customer_unique_id'', ''customer_state'', ''customer_city'',
      ''product_category_name'', ''payment_type'', ''payment_installments'', ''price'',
      ''freight_value'', ''review_score'', ''order_purchase_timestamp'', ''order_approved_at'',
      ''order_delivered_carrier_date'', ''order_delivered_customer_date'',
      ''order_estimated_delivery_date'']"

text \<open>
  A file of three order lines. The third has no freight value, and its purchase date is a
  text that is not a date.
\<close>

definition example_csv :: "string frame" where
  "example_csv =
     \<lparr>columns = csv_columns,
      rows =
        [blank_row\<lparr>order_id := Some ''o1'', customer_unique_id := Some ''c1'',
           customer_state := Some ''SP'', customer_city := Some ''sao paulo'',
           product_category_name := Some ''toys'', payment_type := Some ''credit_card'',
           payment_installments := Some 1, price := Some 10, freight_value := Some 0,
           review_score := Some 5, order_purchase_timestamp := Some ''1970-01-01'',
           order_delivered_customer_date := Some ''1970-01-06''\<rparr>,
         blank_row\<lparr>order_id := Some ''o2'', customer_unique_id := Some ''c1'',
           customer_state := Some ''SP'', customer_city := Some ''sao paulo'',
           product_category_name := Some ''garden'', payment_type := Some ''boleto'',
           payment_installments := Some 1, price := Some 15, freight_value := Some 5,
           review_score := Some 4, order_purchase_timestamp := Some ''1970-01-06'',
           order_delivered_customer_date := Some ''1970-01-08 12:00''\<rparr>,
         blank_row\<lparr>order_id := Some ''o3'', customer_unique_id := Some ''c2'',
           customer_state := Some ''RJ'', customer_city := Some ''rio'',
           product_category_name := Some ''toys'', payment_type := Some ''credit_card'',
           payment_installments := Some 2, price := Some 7,
           review_score := Some 3, order_purchase_timestamp := Some ''yesterday'',
           order_delivered_customer_date := Some ''1970-01-06''\<rparr>]\<rparr>"

text \<open>
  A file with one order line without a customer id and one refund (a negative price).
\<close>

definition refunds_csv :: "string frame" where
  "refunds_csv =
     \<lparr>columns = [''order_id'', ''customer_unique_id'', ''price'', ''freight_value'',
                 ''order_purchase_timestamp''],
      rows =
        [blank_row\<lparr>order_id := Some ''o1'', price := Some 10, freight_value := Some 0,
           order_purchase_timestamp := Some ''1970-01-01''\<rparr>,
         blank_row\<lparr>order_id := Some ''o2'', customer_unique_id := Some ''c1'',
           price := Some (- 5), freight_value := Some 0,
           order_purchase_timestamp := Some ''1970-01-01''\<rparr>]\<rparr>"

definition example_fs :: "string \<Rightarrow> string frame option" where
  "example_fs path =
     (if path = ''data/cleaned_data.csv'' then Some example_csv
      else if path = ''data/no_price.csv''
      then Some (example_csv\<lparr>columns := remove1 ''price'' csv_columns\<rparr>)
      else if path = ''data/refunds.csv'' then Some refunds_csv
      else None)"

text \<open>The table that \<open>load_data\<close> returns for \<open>example_csv\<close>.\<close>

definition example_df :: "int frame" where
  "example_df =
     \<lparr>columns = csv_columns @ [''total_value'', ''delivery_time''],
      rows =
        [blank_row\<lparr>order_id := Some ''o1'', customer_unique_id := Some ''c1'',
           customer_state := Some ''SP'', customer_city := Some ''sao paulo'',
           product_category_name := Some ''toys'', payment_type := Some ''credit_card'',
           payment_installments := Some 1, price := Some 10, freight_value := Some 0,
           review_score := Some 5, order_purchase_timestamp := Some 0,
           order_delivered_customer_date := Some (5 * day_ns),
           total_value := Some 10, delivery_time := Some 5\<rparr>,
         blank_row\<lparr>order_id := Some ''o2'', customer_unique_id := Some ''c1'',
           customer_state := Some ''SP'', customer_city := Some ''sao paulo'',
           product_category_name := Some ''garden'', payment_type := Some ''boleto'',
           payment_installments := Some 1, price := Some 15, freight_value := Some 5,
           review_score := Some 4, order_purchase_timestamp := Some (5 * day_ns),
           order_delivered_customer_date := Some (7 * day_ns + 43200000000000),
           total_value := Some 20, delivery_time := Some 2\<rparr>,
         blank_row\<lparr>order_id := Some ''o3'', customer_unique_id := Some ''c2'',
           customer_state := Some ''RJ'', customer_city := Some ''rio'',
           product_category_name := Some ''toys'', payment_type := Some ''credit_card'',
           payment_installments := Some 2, price := Some 7,
           review_score := Some 3,
           order_delivered_customer_date := Some (5 * day_ns)\<rparr>]\<rparr>"

text \<open>The table that \<open>load_data\<close> returns for \<open>refunds_csv\<close>.\<close>

definition refunds_df :: "int frame" where
  "refunds_df =
     \<lparr>columns = [''order_id'', ''customer_unique_id'', ''price'', ''freight_value'',
                 ''order_purchase_timestamp'', ''total_value''],
      rows =
        [blank_row\<lparr>order_id := Some ''o1'', price := Some 10, freight_value := Some 0,
           order_purchase_timestamp := Some 0, total_value := Some 10\<rparr>,
         blank_row\<lparr>order_id := Some ''o2'', customer_unique_id := Some ''c1'',
           price := Some (- 5), freight_value := Some 0,
           order_purchase_timestamp := Some 0, total_value := Some (- 5)\<rparr>]\<rparr>"

text \<open>
  Two orders of one customer, worth 10 and 20, the second placed five days after the
  first (at time \<open>t\<close>).
\<close>

definition two_orders :: "int \<Rightarrow> int frame" where
  "two_orders t =
     \<lparr>columns = [''order_id'', ''customer_unique_id'', ''order_purchase_timestamp'',
                 ''total_value''],
      rows =
        [blank_row\<lparr>order_id := Some ''o1'', customer_unique_id := Some ''c1'',
           order_purchase_timestamp := Some t, total_value := Some 10\<rparr>,
         blank_row\<lparr>order_id := Some ''o2'', customer_unique_id := Some ''c1'',
           order_purchase_timestamp := Some (t + 5 * day_ns), total_value := Some 20\<rparr>]\<rparr>"

text \<open>A table in which one product category is itself called All.\<close>

definition all_category_df :: "int frame" where
  "all_category_df =
     \<lparr>columns = [''order_purchase_timestamp'', ''product_category_name'', ''payment_type''],
      rows =
        [blank_row\<lparr>order_purchase_timestamp := Some 0, product_category_name := Some ''All'',
           payment_type := Some ''boleto''\<rparr>,
         blank_row\<lparr>order_purchase_timestamp := Some 0, product_category_name := Some ''toys'',
           payment_type := Some ''boleto''\<rparr>]\<rparr>"

section \<open>Facts about load_data\<close>

lemma nth_parse_column:
  "i < length (rows df) \<Longrightarrow> name \<in> set (columns df) \<Longrightarrow>
   parse_column parse df name field ! i =
     (case field (rows df ! i) of None \<Rightarrow> None | Some s \<Rightarrow> parse (map field (rows df)) s)"
  by (simp add: parse_column_def to_datetime_def)

lemma columns_parse_dates: "columns (parse_dates parse df) = columns df"
  by (simp add: parse_dates_def Let_def)

lemma length_rows_parse_dates: "length (rows (parse_dates parse df)) = length (rows df)"
  by (simp add: parse_dates_def Let_def)

lemma nth_rows_parse_dates:
  assumes "i < length (rows df)"
  shows "rows (parse_dates parse df) ! i =
     \<lparr>order_id = order_id (rows df ! i),
      customer_unique_id = customer_unique_id (rows df ! i),
      customer_state = customer_state (rows df ! i),
      customer_city = customer_city (rows df ! i),
      product_category_name = product_category_name (rows df ! i),
      payment_type = payment_type (rows df ! i),
      payment_installments = payment_installments (rows df ! i),
      price = price (rows df ! i),
      freight_value = freight_value (rows df ! i),
      review_score = review_score (rows df ! i),
      order_purchase_timestamp =
        parse_column parse df ''order_purchase_timestamp'' order_purchase_timestamp ! i,
      order_approved_at = parse_column parse df ''order_approved_at'' order_approved_at ! i,
      order_delivered_carrier_date =
        parse_column parse df ''order_delivered_carrier_date'' order_delivered_carrier_date ! i,
      order_delivered_customer_date =
        parse_column parse df ''order_delivered_customer_date'' order_delivered_customer_date ! i,
      order_estimated_delivery_date =
        parse_column parse df ''order_estimated_delivery_date'' order_estimated_delivery_date ! i,
      total_value = total_value (rows df ! i),
      delivery_time = delivery_time (rows df ! i)\<rparr>"
  using assms by (simp add: parse_dates_def Let_def)

lemma columns_assign: "set (columns (assign df name upd vals)) = insert name (set (columns df))"
  by (auto simp: assign_def)

lemma length_rows_assign:
  "length vals = length (rows df) \<Longrightarrow> length (rows (assign df name upd vals)) = length (rows df)"
  by (simp add: assign_def)

lemma nth_rows_assign:
  "length vals = length (rows df) \<Longrightarrow> i < length (rows df) \<Longrightarrow>
   rows (assign df name upd vals) ! i = upd (rows df ! i) (vals ! i)"
  by (simp add: assign_def)

lemma add_total_value_Inr:
  assumes "add_total_value df = Inr df'"
  shows "''price'' \<in> set (columns df)" and "''freight_value'' \<in> set (columns df)"
    and "set (columns df') = insert ''total_value'' (set (columns df))"
    and "length (rows df') = length (rows df)"
    and "i < length (rows df) \<Longrightarrow>
         rows df' ! i = (rows df ! i)\<lparr>total_value :=
            add_cell (price (rows df ! i)) (freight_value (rows df ! i))\<rparr>"
  using assms
  by (auto simp: add_total_value_def add_series_def columns_assign length_rows_assign
      nth_rows_assign split: if_splits)

lemma add_delivery_time_props:
  shows "length (rows (add_delivery_time df)) = length (rows df)"
    and "set (columns (add_delivery_time df)) =
          (if ''order_delivered_customer_date'' \<in> set (columns df)
              \<and> ''order_purchase_timestamp'' \<in> set (columns df)
           then insert ''delivery_time'' (set (columns df)) else set (columns df))"
    and "i < length (rows df) \<Longrightarrow>
         rows (add_delivery_time df) ! i =
          (if ''order_delivered_customer_date'' \<in> set (columns df)
              \<and> ''order_purchase_timestamp'' \<in> set (columns df)
           then (rows df ! i)\<lparr>delivery_time := map_option of_int (td_days
                   (sub_cell (order_delivered_customer_date (rows df ! i))
                             (order_purchase_timestamp (rows df ! i))))\<rparr>
           else rows df ! i)"
  by (auto simp: add_delivery_time_def columns_assign length_rows_assign nth_rows_assign)

lemma load_data_row:
  assumes "load_data parse fs file_path = Inr df" and "fs file_path = Some csv"
    and "i < length (rows csv)"
  shows "price (rows df ! i) = price (rows csv ! i)"
    and "freight_value (rows df ! i) = freight_value (rows csv ! i)"
    and "total_value (rows df ! i) = add_cell (price (rows csv ! i)) (freight_value (rows csv ! i))"
    and "order_purchase_timestamp (rows df ! i) =
           parse_column parse csv ''order_purchase_timestamp'' order_purchase_timestamp ! i"
    and "order_approved_at (rows df ! i) =
           parse_column parse csv ''order_approved_at'' order_approved_at ! i"
    and "order_delivered_carrier_date (rows df ! i) =
           parse_column parse csv ''order_delivered_carrier_date'' order_delivered_carrier_date ! i"
    and "order_delivered_customer_date (rows df ! i) =
           parse_column parse csv ''order_delivered_customer_date'' order_delivered_customer_date ! i"
    and "order_estimated_delivery_date (rows df ! i) =
           parse_column parse csv ''order_estimated_delivery_date'' order_estimated_delivery_date ! i"
proof -
  from assms(1) assms(2) obtain df1
    where t: "add_total_value (parse_dates parse csv) = Inr df1"
      and d: "df = add_delivery_time df1"
    by (auto simp: load_data_def split: sum.splits)
  have i1: "i < length (rows (parse_dates parse csv))"
    using assms(3) by (simp add: length_rows_parse_dates)
  have l1: "length (rows df1) = length (rows csv)"
    using add_total_value_Inr(4)[OF t] by (simp add: length_rows_parse_dates)
  have r1: "rows df1 ! i = (rows (parse_dates parse csv) ! i)\<lparr>total_value :=
            add_cell (price (rows (parse_dates parse csv) ! i))
                     (freight_value (rows (parse_dates parse csv) ! i))\<rparr>"
    using add_total_value_Inr(5)[OF t i1] by simp
  have i2: "i < length (rows df1)" using l1 assms(3) by simp
  note r2 = add_delivery_time_props(3)[OF i2]
  note p = nth_rows_parse_dates[OF assms(3), of parse]
  show "price (rows df ! i) = price (rows csv ! i)"
    and "freight_value (rows df ! i) = freight_value (rows csv ! i)"
    and "total_value (rows df ! i) = add_cell (price (rows csv ! i)) (freight_value (rows csv ! i))"
    and "order_purchase_timestamp (rows df ! i) =
           parse_column parse csv ''order_purchase_timestamp'' order_purchase_timestamp ! i"
    and "order_approved_at (rows df ! i) =
           parse_column parse csv ''order_approved_at'' order_approved_at ! i"
    and "order_delivered_carrier_date (rows df ! i) =
           parse_column parse csv ''order_delivered_carrier_date'' order_delivered_carrier_date ! i"
    and "order_delivered_customer_date (rows df ! i) =
           parse_column parse csv ''order_delivered_customer_date'' order_delivered_customer_date ! i"
    and "order_estimated_delivery_date (rows df ! i) =
           parse_column parse csv ''order_estimated_delivery_date'' order_estimated_delivery_date ! i"
    unfolding d r2 r1 p by simp_all
qed

lemma load_example_csv:
  "load_data example_parse example_fs ''data/cleaned_data.csv'' = Inr example_df"
  by (simp add: load_data_def example_fs_def example_csv_def example_df_def csv_columns_def
      add_total_value_def add_delivery_time_def parse_dates_def parse_column_def to_datetime_def
      assign_def add_series_def td_days_def day_ns_def example_parse_def blank_row_def Let_def
      upt_rec)

lemma load_refunds_csv:
  "load_data example_parse example_fs ''data/refunds.csv'' = Inr refunds_df"
  by (simp add: load_data_def example_fs_def refunds_csv_def refunds_df_def
      add_total_value_def add_delivery_time_def parse_dates_def parse_column_def to_datetime_def
      assign_def add_series_def td_days_def day_ns_def example_parse_def blank_row_def Let_def
      upt_rec)

lemma load_data_length:
  assumes "load_data parse fs file_path = Inr df" and "fs file_path = Some csv"
  shows "length (rows df) = length (rows csv)"
proof -
  from assms obtain df1
    where t: "add_total_value (parse_dates parse csv) = Inr df1"
      and d: "df = add_delivery_time df1"
    by (auto simp: load_data_def split: sum.splits)
  show ?thesis
    using add_total_value_Inr(4)[OF t]
    by (simp add: d add_delivery_time_props(1) length_rows_parse_dates)
qed

section \<open>Claims about load_data\<close>

text \<open>
  Claim C1. When \<open>load_data\<close> returns a table, the table has one row per row of the file,
  the price and the freight value of each row are those of the file, and in every row
  \<open>total_value\<close> is the sum of \<open>price\<close> and \<open>freight_value\<close>: the sum of the two numbers
  when both are present, missing when either is missing.
\<close>

theorem load_data_total_value:
  assumes "load_data parse fs file_path = Inr df"
  shows "\<exists>csv. fs file_path = Some csv \<and> length (rows df) = length (rows csv) \<and>
           (\<forall>i < length (rows df).
              price (rows df ! i) = price (rows csv ! i) \<and>
              freight_value (rows df ! i) = freight_value (rows csv ! i) \<and>
              total_value (rows df ! i) =
                (case price (rows df ! i) of
                   None \<Rightarrow> None
                 | Some p \<Rightarrow> (case freight_value (rows df ! i) of
                               None \<Rightarrow> None
                             | Some f \<Rightarrow> Some (p + f))))"
proof -
  from assms obtain csv where c: "fs file_path = Some csv"
    by (auto simp: load_data_def split: option.splits)
  have l: "length (rows df) = length (rows csv)"
    by (rule load_data_length[OF assms c])
  have "price (rows df ! i) = price (rows csv ! i) \<and>
        freight_value (rows df ! i) = freight_value (rows csv ! i) \<and>
        total_value (rows df ! i) =
          (case price (rows df ! i) of
             None \<Rightarrow> None
           | Some p \<Rightarrow> (case freight_value (rows df ! i) of
                         None \<Rightarrow> None
                       | Some f \<Rightarrow> Some (p + f)))"
    if "i < length (rows df)" for i
  proof -
    from that l have i: "i < length (rows csv)" by simp
    note r = load_data_row(1-3)[OF assms c i]
    show ?thesis
      unfolding r
      by (cases "price (rows csv ! i)"; cases "freight_value (rows csv ! i)") simp_all
  qed
  with c l show ?thesis by blast
qed

text \<open>The second row of the example file: 15 + 5.\<close>

theorem load_data_total_value_witness:
  "load_data example_parse example_fs ''data/cleaned_data.csv'' = Inr example_df \<and>
   total_value (rows example_df ! 1) =
     (case price (rows example_df ! 1) of
        None \<Rightarrow> None
      | Some p \<Rightarrow> (case freight_value (rows example_df ! 1) of
                    None \<Rightarrow> None
                  | Some f \<Rightarrow> Some (p + f)))"
proof -
  have n: "1 < length (rows example_df)"
    by (simp add: example_df_def)
  from load_data_total_value[OF load_example_csv] n load_example_csv show ?thesis
    by blast
qed

text \<open>
  Claim C3. For a path that does not exist \<open>load_data\<close> raises FileNotFoundError, and for a
  file whose table has no \<open>price\<close> column it raises the KeyError for the missing required
  columns.
\<close>

theorem load_data_errors:
  "(fs file_path = None \<longrightarrow> load_data parse fs file_path = Inl (FileNotFoundError file_path)) \<and>
   (\<forall>csv. fs file_path = Some csv \<and> ''price'' \<notin> set (columns csv) \<longrightarrow>
      load_data parse fs file_path = Inl (KeyError missing_required_columns))"
  by (simp add: load_data_def add_total_value_def columns_parse_dates)

text \<open>A path that the example file system does not have, and the example file without its price column.\<close>

theorem load_data_errors_witness:
  "load_data example_parse example_fs ''data/missing.csv'' = Inl (FileNotFoundError ''data/missing.csv'') \<and>
   load_data example_parse example_fs ''data/no_price.csv'' = Inl (KeyError missing_required_columns)"
proof -
  have a: "example_fs ''data/missing.csv'' = None"
    by (simp add: example_fs_def)
  have b: "example_fs ''data/no_price.csv'' = Some (example_csv\<lparr>columns := remove1 ''price'' csv_columns\<rparr>)"
    by (simp add: example_fs_def)
  have c: "''price'' \<notin> set (columns (example_csv\<lparr>columns := remove1 ''price'' csv_columns\<rparr>))"
    by (simp add: csv_columns_def)
  from load_data_errors[of example_fs "''data/missing.csv''" example_parse] a
  have 1: "load_data example_parse example_fs ''data/missing.csv'' = Inl (FileNotFoundError ''data/missing.csv'')"
    by blast
  from load_data_errors[of example_fs "''data/no_price.csv''" example_parse] b c
  have 2: "load_data example_parse example_fs ''data/no_price.csv'' = Inl (KeyError missing_required_columns)"
    by blast
  from 1 2 show ?thesis by blast
qed

text \<open>
  Claim C8. Whether \<open>load_data\<close> returns a table does not depend on the dates: for an
  existing file it returns one exactly when the price and freight columns are there, whatever
  the parser makes of the date texts. In the returned table each of the five date columns
  that the file has holds, row by row, what the parser returns for the text of the file: a
  text that cannot be parsed (the parser returns \<open>None\<close>) becomes a missing value, and a
  missing value stays missing.
\<close>

theorem load_data_dates_coerced:
  assumes "fs file_path = Some csv"
  shows "((\<exists>df. load_data parse fs file_path = Inr df) \<longleftrightarrow>
            ''price'' \<in> set (columns csv) \<and> ''freight_value'' \<in> set (columns csv)) \<and>
         (\<forall>df i. load_data parse fs file_path = Inr df \<and> i < length (rows csv) \<longrightarrow>
            (''order_purchase_timestamp'' \<in> set (columns csv) \<longrightarrow>
               order_purchase_timestamp (rows df ! i) =
                 (case order_purchase_timestamp (rows csv ! i) of
                    None \<Rightarrow> None
                  | Some s \<Rightarrow> parse (map order_purchase_timestamp (rows csv)) s)) \<and>
            (''order_approved_at'' \<in> set (columns csv) \<longrightarrow>
               order_approved_at (rows df ! i) =
                 (case order_approved_at (rows csv ! i) of
                    None \<Rightarrow> None
                  | Some s \<Rightarrow> parse (map order_approved_at (rows csv)) s)) \<and>
            (''order_delivered_carrier_date'' \<in> set (columns csv) \<longrightarrow>
               order_delivered_carrier_date (rows df ! i) =
                 (case order_delivered_carrier_date (rows csv ! i) of
                    None \<Rightarrow> None
                  | Some s \<Rightarrow> parse (map order_delivered_carrier_date (rows csv)) s)) \<and>
            (''order_delivered_customer_date'' \<in> set (columns csv) \<longrightarrow>
               order_delivered_customer_date (rows df ! i) =
                 (case order_delivered_customer_date (rows csv ! i) of
                    None \<Rightarrow> None
                  | Some s \<Rightarrow> parse (map order_delivered_customer_date (rows csv)) s)) \<and>
            (''order_estimated_delivery_date'' \<in> set (columns csv) \<longrightarrow>
               order_estimated_delivery_date (rows df ! i) =
                 (case order_estimated_delivery_date (rows csv ! i) of
                    None \<Rightarrow> None
                  | Some s \<Rightarrow> parse (map order_estimated_delivery_date (rows csv)) s)))"
proof (intro conjI allI impI; (elim conjE)?)
  show "(\<exists>df. load_data parse fs file_path = Inr df) \<longleftrightarrow>
          ''price'' \<in> set (columns csv) \<and> ''freight_value'' \<in> set (columns csv)"
    using assms by (simp add: load_data_def add_total_value_def columns_parse_dates)
next
  fix df i
  assume l: "load_data parse fs file_path = Inr df" and i: "i < length (rows csv)"
  note r = load_data_row(4-8)[OF l assms i]
  {
    assume "''order_purchase_timestamp'' \<in> set (columns csv)"
    then show "order_purchase_timestamp (rows df ! i) =
                 (case order_purchase_timestamp (rows csv ! i) of
                    None \<Rightarrow> None
                  | Some s \<Rightarrow> parse (map order_purchase_timestamp (rows csv)) s)"
      by (simp add: r nth_parse_column[OF i])
  }
  {
    assume "''order_approved_at'' \<in> set (columns csv)"
    then show "order_approved_at (rows df ! i) =
                 (case order_approved_at (rows csv ! i) of
                    None \<Rightarrow> None
                  | Some s \<Rightarrow> parse (map order_approved_at (rows csv)) s)"
      by (simp add: r nth_parse_column[OF i])
  }
  {
    assume "''order_delivered_carrier_date'' \<in> set (columns csv)"
    then show "order_delivered_carrier_date (rows df ! i) =
                 (case order_delivered_carrier_date (rows csv ! i) of
                    None \<Rightarrow> None
                  | Some s \<Rightarrow> parse (map order_delivered_carrier_date (rows csv)) s)"
      by (simp add: r nth_parse_column[OF i])
  }
  {
    assume "''order_delivered_customer_date'' \<in> set (columns csv)"
    then show "order_delivered_customer_date (rows df ! i) =
                 (case order_delivered_customer_date (rows csv ! i) of
                    None \<Rightarrow> None
                  | Some s \<Rightarrow> parse (map order_delivered_customer_date (rows csv)) s)"
      by (simp add: r nth_parse_column[OF i])
  }
  {
    assume "''order_estimated_delivery_date'' \<in> set (columns csv)"
    then show "order_estimated_delivery_date (rows df ! i) =
                 (case order_estimated_delivery_date (rows csv ! i) of
                    None \<Rightarrow> None
                  | Some s \<Rightarrow> parse (map order_estimated_delivery_date (rows csv)) s)"
      by (simp add: r nth_parse_column[OF i])
  }
qed

text \<open>
  The third row of the example file: its purchase date is the text "yesterday", which the
  example parser rejects.
\<close>

theorem load_data_dates_coerced_witness:
  "example_fs ''data/cleaned_data.csv'' = Some example_csv \<and>
   (\<exists>df. load_data example_parse example_fs ''data/cleaned_data.csv'' = Inr df) \<and>
   order_purchase_timestamp (rows example_csv ! 2) = Some ''yesterday'' \<and>
   example_parse (map order_purchase_timestamp (rows example_csv)) ''yesterday'' = None \<and>
   order_purchase_timestamp (rows example_df ! 2) = None \<and>
   order_approved_at (rows example_df ! 2) = None \<and>
   order_delivered_carrier_date (rows example_df ! 2) = None \<and>
   order_delivered_customer_date (rows example_df ! 2) = Some (5 * day_ns) \<and>
   order_estimated_delivery_date (rows example_df ! 2) = None"
proof -
  have h: "example_fs ''data/cleaned_data.csv'' = Some example_csv"
    by (simp add: example_fs_def)
  have c: "''price'' \<in> set (columns example_csv)" "''freight_value'' \<in> set (columns example_csv)"
    "''order_purchase_timestamp'' \<in> set (columns example_csv)"
    "''order_approved_at'' \<in> set (columns example_csv)"
    "''order_delivered_carrier_date'' \<in> set (columns example_csv)"
    "''order_delivered_customer_date'' \<in> set (columns example_csv)"
    "''order_estimated_delivery_date'' \<in> set (columns example_csv)"
    by (simp_all add: example_csv_def csv_columns_def)
  have i: "2 < length (rows example_csv)"
    by (simp add: example_csv_def)
  have v: "order_purchase_timestamp (rows example_csv ! 2) = Some ''yesterday''"
    "order_approved_at (rows example_csv ! 2) = None"
    "order_delivered_carrier_date (rows example_csv ! 2) = None"
    "order_delivered_customer_date (rows example_csv ! 2) = Some ''1970-01-06''"
    "order_estimated_delivery_date (rows example_csv ! 2) = None"
    by (simp_all add: example_csv_def blank_row_def)
  have p: "example_parse col ''yesterday'' = None" "example_parse col ''1970-01-06'' = Some (5 * day_ns)"
    for col
    by (simp_all add: example_parse_def)
  note t = load_data_dates_coerced[where fs = example_fs and parse = example_parse, OF h]
  from t c have e: "\<exists>df. load_data example_parse example_fs ''data/cleaned_data.csv'' = Inr df"
    by blast
  from t load_example_csv i c
  have "order_purchase_timestamp (rows example_df ! 2) =
          (case order_purchase_timestamp (rows example_csv ! 2) of
             None \<Rightarrow> None
           | Some s \<Rightarrow> example_parse (map order_purchase_timestamp (rows example_csv)) s)"
    and "order_approved_at (rows example_df ! 2) =
          (case order_approved_at (rows example_csv ! 2) of
             None \<Rightarrow> None
           | Some s \<Rightarrow> example_parse (map order_approved_at (rows example_csv)) s)"
    and "order_delivered_carrier_date (rows example_df ! 2) =
          (case order_delivered_carrier_date (rows example_csv ! 2) of
             None \<Rightarrow> None
           | Some s \<Rightarrow> example_parse (map order_delivered_carrier_date (rows example_csv)) s)"
    and "order_delivered_customer_date (rows example_df ! 2) =
          (case order_delivered_customer_date (rows example_csv ! 2) of
             None \<Rightarrow> None
           | Some s \<Rightarrow> example_parse (map order_delivered_customer_date (rows example_csv)) s)"
    and "order_estimated_delivery_date (rows example_df ! 2) =
          (case order_estimated_delivery_date (rows example_csv ! 2) of
             None \<Rightarrow> None
           | Some s \<Rightarrow> example_parse (map order_estimated_delivery_date (rows example_csv)) s)"
    by blast+
  then show ?thesis
    using h e by (simp add: v p)
qed

lemma load_data_columns:
  assumes "load_data parse fs file_path = Inr df" and "fs file_path = Some csv"
  shows "set (columns df) =
          (if ''order_delivered_customer_date'' \<in> set (columns csv)
              \<and> ''order_purchase_timestamp'' \<in> set (columns csv)
           then insert ''delivery_time'' (insert ''total_value'' (set (columns csv)))
           else insert ''total_value'' (set (columns csv)))"
proof -
  from assms obtain df1
    where t: "add_total_value (parse_dates parse csv) = Inr df1"
      and d: "df = add_delivery_time df1"
    by (auto simp: load_data_def split: sum.splits)
  show ?thesis
    using add_total_value_Inr(3)[OF t]
    by (simp add: d add_delivery_time_props(2) columns_parse_dates)
qed

lemma load_data_delivery_row:
  assumes "load_data parse fs file_path = Inr df" and "fs file_path = Some csv"
    and "i < length (rows csv)"
    and "''order_delivered_customer_date'' \<in> set (columns csv)"
    and "''order_purchase_timestamp'' \<in> set (columns csv)"
  shows "delivery_time (rows df ! i) =
           map_option of_int (td_days (sub_cell (order_delivered_customer_date (rows df ! i))
                                                (order_purchase_timestamp (rows df ! i))))"
proof -
  from assms(1,2) obtain df1
    where t: "add_total_value (parse_dates parse csv) = Inr df1"
      and d: "df = add_delivery_time df1"
    by (auto simp: load_data_def split: sum.splits)
  have l1: "length (rows df1) = length (rows csv)"
    using add_total_value_Inr(4)[OF t] by (simp add: length_rows_parse_dates)
  have c1: "''order_delivered_customer_date'' \<in> set (columns df1)"
    "''order_purchase_timestamp'' \<in> set (columns df1)"
    using add_total_value_Inr(3)[OF t] assms(4,5) by (simp_all add: columns_parse_dates)
  have i2: "i < length (rows df1)" using l1 assms(3) by simp
  show ?thesis
    unfolding d add_delivery_time_props(3)[OF i2] using c1 by simp
qed

text \<open>
  Claim C9. When the file has the customer-delivered and the purchase date columns, the
  returned table has the column \<open>delivery_time\<close>, and in every row it is the difference of
  the two timestamps in whole days (rounded down), missing when either timestamp is missing.
\<close>

theorem load_data_delivery_time:
  assumes "load_data parse fs file_path = Inr df" and "fs file_path = Some csv"
    and "''order_delivered_customer_date'' \<in> set (columns csv)"
    and "''order_purchase_timestamp'' \<in> set (columns csv)"
  shows "''delivery_time'' \<in> set (columns df) \<and>
         (\<forall>i < length (rows df).
            delivery_time (rows df ! i) =
              (case order_delivered_customer_date (rows df ! i) of
                 None \<Rightarrow> None
               | Some d \<Rightarrow> (case order_purchase_timestamp (rows df ! i) of
                             None \<Rightarrow> None
                           | Some p \<Rightarrow> Some (of_int ((d - p) div day_ns)))))"
proof -
  have c: "''delivery_time'' \<in> set (columns df)"
    using load_data_columns[OF assms(1,2)] assms(3,4) by simp
  have l: "length (rows df) = length (rows csv)"
    by (rule load_data_length[OF assms(1,2)])
  have "delivery_time (rows df ! i) =
              (case order_delivered_customer_date (rows df ! i) of
                 None \<Rightarrow> None
               | Some d \<Rightarrow> (case order_purchase_timestamp (rows df ! i) of
                             None \<Rightarrow> None
                           | Some p \<Rightarrow> Some (of_int ((d - p) div day_ns))))"
    if "i < length (rows df)" for i
  proof -
    from that l have i: "i < length (rows csv)" by simp
    show ?thesis
      unfolding load_data_delivery_row[OF assms(1,2) i assms(3,4)]
      by (cases "order_delivered_customer_date (rows df ! i)";
          cases "order_purchase_timestamp (rows df ! i)") (simp_all add: td_days_def)
  qed
  with c show ?thesis by blast
qed

text \<open>
  The example file: two and a half days give 2 in the second row, and the third row has no
  purchase timestamp.
\<close>

theorem load_data_delivery_time_witness:
  "load_data example_parse example_fs ''data/cleaned_data.csv'' = Inr example_df \<and>
   example_fs ''data/cleaned_data.csv'' = Some example_csv \<and>
   ''order_delivered_customer_date'' \<in> set (columns example_csv) \<and>
   ''order_purchase_timestamp'' \<in> set (columns example_csv) \<and>
   ''delivery_time'' \<in> set (columns example_df) \<and>
   delivery_time (rows example_df ! 1) = Some 2 \<and>
   delivery_time (rows example_df ! 2) = None"
proof -
  have h: "example_fs ''data/cleaned_data.csv'' = Some example_csv"
    by (simp add: example_fs_def)
  have c: "''order_delivered_customer_date'' \<in> set (columns example_csv)"
    "''order_purchase_timestamp'' \<in> set (columns example_csv)"
    by (simp_all add: example_csv_def csv_columns_def)
  have n: "1 < length (rows example_df)" "2 < length (rows example_df)"
    by (simp_all add: example_df_def)
  have v: "order_delivered_customer_date (rows example_df ! 1) = Some (7 * day_ns + 43200000000000)"
    "order_purchase_timestamp (rows example_df ! 1) = Some (5 * day_ns)"
    "order_purchase_timestamp (rows example_df ! 2) = None"
    by (simp_all add: example_df_def blank_row_def)
  note t = load_data_delivery_time[OF load_example_csv h c]
  from t have 0: "''delivery_time'' \<in> set (columns example_df)"
    by blast
  from t n(1)
  have "delivery_time (rows example_df ! 1) =
          (case order_delivered_customer_date (rows example_df ! 1) of
             None \<Rightarrow> None
           | Some d \<Rightarrow> (case order_purchase_timestamp (rows example_df ! 1) of
                         None \<Rightarrow> None
                       | Some p \<Rightarrow> Some (of_int ((d - p) div day_ns))))"
    by blast
  then have 1: "delivery_time (rows example_df ! 1) = Some 2"
    by (simp only: v) (simp add: day_ns_def)
  from t n(2)
  have "delivery_time (rows example_df ! 2) =
          (case order_delivered_customer_date (rows example_df ! 2) of
             None \<Rightarrow> None
           | Some d \<Rightarrow> (case order_purchase_timestamp (rows example_df ! 2) of
                         None \<Rightarrow> None
                       | Some p \<Rightarrow> Some (of_int ((d - p) div day_ns))))"
    by blast
  then have 2: "delivery_time (rows example_df ! 2) = None"
    by (simp only: v) (simp split: option.splits)
  from load_example_csv h c 0 1 2 show ?thesis by blast
qed

section \<open>Facts about the filters\<close>

lemma select_zip_map: "map snd (filter fst (zip (map P xs) xs)) = filter P xs"
  by (induction xs) auto

lemma select_rows_map: "select_rows df (map P (rows df)) = df\<lparr>rows := filter P (rows df)\<rparr>"
  by (simp add: select_rows_def select_zip_map)

lemma and_mask_map: "and_mask (map P xs) (map Q xs) = map (\<lambda>x. P x \<and> Q x) xs"
  by (simp add: and_mask_def map2_map_map)

lemma mask_Inr:
  assumes "mask df date_range selected_category selected_payment = Inr m"
  shows "1 < length date_range \<and>
         m = map (\<lambda>r. (date_ge (dt_date (order_purchase_timestamp r)) (date_range ! 0) \<and>
                        date_le (dt_date (order_purchase_timestamp r)) (date_range ! 1)) \<and>
                       (selected_category \<noteq> Some ''All'' \<longrightarrow>
                          str_eq (product_category_name r) selected_category) \<and>
                       (selected_payment \<noteq> Some ''All'' \<longrightarrow>
                          str_eq (payment_type r) selected_payment)) (rows df)"
  using assms
  by (auto simp: mask_def series_def getitem_def and_mask_map Let_def
      split: if_splits sum.splits)

lemma mask_total:
  assumes "''order_purchase_timestamp'' \<in> set (columns df)"
    and "''product_category_name'' \<in> set (columns df)"
    and "''payment_type'' \<in> set (columns df)"
  shows "mask df [lo, hi] selected_category selected_payment =
         Inr (map (\<lambda>r. (date_ge (dt_date (order_purchase_timestamp r)) lo \<and>
                        date_le (dt_date (order_purchase_timestamp r)) hi) \<and>
                       (selected_category \<noteq> Some ''All'' \<longrightarrow>
                          str_eq (product_category_name r) selected_category) \<and>
                       (selected_payment \<noteq> Some ''All'' \<longrightarrow>
                          str_eq (payment_type r) selected_payment)) (rows df))"
  using assms
  by (auto simp: mask_def series_def getitem_def and_mask_map Let_def)

text \<open>
  While only one date of the range has been picked the tuple has one entry, and
  \<^verbatim>\<open>date_range[1]\<close> raises.
\<close>

lemma mask_incomplete_range:
  "''order_purchase_timestamp'' \<in> set (columns df) \<Longrightarrow>
   mask df [d] selected_category selected_payment = Inl IndexError"
  by (simp add: mask_def series_def getitem_def)

lemma example_df_columns:
  "''order_purchase_timestamp'' \<in> set (columns example_df)"
  "''product_category_name'' \<in> set (columns example_df)"
  "''payment_type'' \<in> set (columns example_df)"
  by (simp_all add: example_df_def csv_columns_def)

lemma filtered_example_all:
  "filtered_df example_df [0, 5] (Some ''All'') (Some ''All'') =
   Inr (example_df\<lparr>rows := take 2 (rows example_df)\<rparr>)"
  by (simp add: filtered_df_def mask_def series_def getitem_def and_mask_def select_rows_def
      example_df_columns)
    (simp add: example_df_def blank_row_def dt_date_def day_ns_def)

lemma mask_example_toys:
  "mask example_df [0, 10] (Some ''toys'') (Some ''All'') = Inr [True, False, False]"
  by (simp add: mask_def series_def getitem_def and_mask_def example_df_columns)
    (simp add: example_df_def blank_row_def dt_date_def day_ns_def)

lemma rows_select_rows: "rows (select_rows df m) = map snd (filter fst (zip m (rows df)))"
  by (simp add: select_rows_def)

lemma mset_select_partition:
  "length m = length xs \<Longrightarrow>
   mset (map snd (filter fst (zip m xs))) + mset (map snd (filter fst (zip (map Not m) xs))) = mset xs"
  by (induction m xs rule: list_induct2) auto

lemma date_in_range:
  "(date_ge (dt_date t) lo \<and> date_le (dt_date t) hi) =
   (case t of None \<Rightarrow> False | Some n \<Rightarrow> lo \<le> n div day_ns \<and> n div day_ns \<le> hi)"
  by (cases t) (simp_all add: dt_date_def)

lemma str_eq_iff: "str_eq c sel = (sel \<noteq> None \<and> c = sel)"
  by (cases c; cases sel) auto

section \<open>Claims about the filters\<close>

text \<open>
  Claim C4. For a table with the purchase date, category and payment type columns and a
  date range \<open>[lo, hi]\<close>, the filtered table has the columns of the table and exactly the
  rows, in their order in the table, that satisfy all of: the purchase day is present and
  lies in \<open>lo..hi\<close> (both ends included); the row's category equals the selected category,
  unless the selection is \<open>''All''\<close>; the row's payment type equals the selected payment type,
  unless the selection is \<open>''All''\<close>. Equality is that of pandas: a missing value equals
  nothing, so a missing selection (the missing entry of the selection box) keeps no row.
\<close>

theorem filtered_df_rows:
  assumes "''order_purchase_timestamp'' \<in> set (columns df)"
    and "''product_category_name'' \<in> set (columns df)"
    and "''payment_type'' \<in> set (columns df)"
  shows "filtered_df df [lo, hi] selected_category selected_payment =
         Inr (df\<lparr>rows := filter
                (\<lambda>r. (case order_purchase_timestamp r of
                         None \<Rightarrow> False
                       | Some n \<Rightarrow> lo \<le> n div day_ns \<and> n div day_ns \<le> hi) \<and>
                      (selected_category \<noteq> Some ''All'' \<longrightarrow>
                         selected_category \<noteq> None \<and> product_category_name r = selected_category) \<and>
                      (selected_payment \<noteq> Some ''All'' \<longrightarrow>
                         selected_payment \<noteq> None \<and> payment_type r = selected_payment))
                (rows df)\<rparr>)"
  by (simp add: filtered_df_def mask_total[OF assms] select_rows_map date_in_range str_eq_iff)

text \<open>The example table, the first six days, category toys, every payment type: the first row.\<close>

theorem filtered_df_rows_witness:
  "''order_purchase_timestamp'' \<in> set (columns example_df) \<and>
   ''product_category_name'' \<in> set (columns example_df) \<and>
   ''payment_type'' \<in> set (columns example_df) \<and>
   filtered_df example_df [0, 5] (Some ''toys'') (Some ''All'') =
     Inr (example_df\<lparr>rows := [rows example_df ! 0]\<rparr>)"
proof -
  note t = filtered_df_rows[OF example_df_columns, of 0 5 "Some ''toys''" "Some ''All''"]
  have "filtered_df example_df [0, 5] (Some ''toys'') (Some ''All'') =
          Inr (example_df\<lparr>rows := [rows example_df ! 0]\<rparr>)"
    unfolding t by (simp add: example_df_def blank_row_def day_ns_def)
  with example_df_columns show ?thesis by blast
qed

text \<open>
  Claim C10. Whatever the date range and the two selections are, no row of the filtered
  table has a missing purchase timestamp: a missing timestamp never satisfies the date-range
  test, also when the range spans every date of the table and both selections are
  \<open>''All''\<close>.
\<close>

theorem filtered_df_drops_missing_purchase:
  assumes "filtered_df df date_range selected_category selected_payment = Inr out"
  shows "\<forall>r \<in> set (rows out). order_purchase_timestamp r \<noteq> None"
proof -
  from assms obtain m
    where m: "mask df date_range selected_category selected_payment = Inr m"
      and out: "out = select_rows df m"
    by (auto simp: filtered_df_def split: sum.splits)
  show ?thesis
    unfolding out using mask_Inr[OF m]
    by (auto simp: select_rows_map date_in_range split: option.splits)
qed

text \<open>
  The example table over its whole date range (days 0 to 5) with both selections \<open>''All''\<close>:
  the third row, whose purchase timestamp is missing, is dropped.
\<close>

theorem filtered_df_drops_missing_purchase_witness:
  "filtered_df example_df [0, 5] (Some ''All'') (Some ''All'') =
     Inr (example_df\<lparr>rows := take 2 (rows example_df)\<rparr>) \<and>
   order_purchase_timestamp (rows example_df ! 2) = None \<and>
   rows example_df ! 2 \<notin> set (rows (example_df\<lparr>rows := take 2 (rows example_df)\<rparr>))"
proof -
  have n: "order_purchase_timestamp (rows example_df ! 2) = None"
    by (simp add: example_df_def blank_row_def)
  from filtered_df_drops_missing_purchase[OF filtered_example_all] n
  have "rows example_df ! 2 \<notin> set (rows (example_df\<lparr>rows := take 2 (rows example_df)\<rparr>))"
    by blast
  with filtered_example_all n show ?thesis by blast
qed

text \<open>
  Claim C5, as stated, fails when a category of the table is itself called \<open>All\<close>:
  selecting it switches the category filter off, and rows of other categories are returned.
\<close>

theorem category_filter_all_counterexample:
  "filtered_df all_category_df [0, 0] (Some ''All'') (Some ''All'') = Inr all_category_df \<and>
   rows all_category_df ! 1 \<in> set (rows all_category_df) \<and>
   product_category_name (rows all_category_df ! 1) = Some ''toys'' \<and>
   product_category_name (rows all_category_df ! 1) \<noteq> Some ''All''"
  by (simp add: filtered_df_def mask_def series_def getitem_def and_mask_def select_rows_def
      all_category_df_def blank_row_def dt_date_def day_ns_def)

text \<open>
  Claim C5, amended. For every table and every selected category other than the sentinel
  \<open>''All''\<close>, the filtered table consists of the rows kept by the mask, every one of them
  has that category, and the rows kept by the mask (filtered in) together with the rows kept
  by its complement (filtered out, \<^verbatim>\<open>df[~mask]\<close>) are the rows of the table, each exactly
  once.
\<close>

theorem category_filter_partition:
  assumes "mask df date_range selected_category selected_payment = Inr m"
    and "selected_category \<noteq> Some ''All''"
  shows "filtered_df df date_range selected_category selected_payment = Inr (select_rows df m) \<and>
         (\<forall>r \<in> set (rows (select_rows df m)). product_category_name r = selected_category) \<and>
         mset (rows (select_rows df m)) + mset (rows (select_rows df (map Not m))) = mset (rows df)"
proof (intro conjI)
  show "filtered_df df date_range selected_category selected_payment = Inr (select_rows df m)"
    by (simp add: filtered_df_def assms(1))
  show "\<forall>r \<in> set (rows (select_rows df m)). product_category_name r = selected_category"
    using mask_Inr[OF assms(1)] assms(2)
    by (auto simp: select_rows_map str_eq_iff)
  have "length m = length (rows df)"
    using mask_Inr[OF assms(1)] by simp
  then show "mset (rows (select_rows df m)) + mset (rows (select_rows df (map Not m))) = mset (rows df)"
    unfolding rows_select_rows by (rule mset_select_partition)
qed

text \<open>The example table filtered by the category toys.\<close>

theorem category_filter_partition_witness:
  "mask example_df [0, 10] (Some ''toys'') (Some ''All'') = Inr [True, False, False] \<and>
   Some ''toys'' \<noteq> Some ''All'' \<and>
   filtered_df example_df [0, 10] (Some ''toys'') (Some ''All'') =
     Inr (select_rows example_df [True, False, False]) \<and>
   rows (select_rows example_df [True, False, False]) = [rows example_df ! 0] \<and>
   product_category_name (rows example_df ! 0) = Some ''toys'' \<and>
   mset (rows (select_rows example_df [True, False, False]))
     + mset (rows (select_rows example_df (map Not [True, False, False])))
     = mset (rows example_df)"
proof -
  have a: "Some ''toys'' \<noteq> Some ''All''" by simp
  have r: "rows (select_rows example_df [True, False, False]) = [rows example_df ! 0]"
    by (simp add: select_rows_def example_df_def)
  note t = category_filter_partition[OF mask_example_toys a]
  from t r have c: "product_category_name (rows example_df ! 0) = Some ''toys''"
    by simp
  from t have p: "mset (rows (select_rows example_df [True, False, False]))
     + mset (rows (select_rows example_df (map Not [True, False, False])))
     = mset (rows example_df)"
    by blast
  from t have f: "filtered_df example_df [0, 10] (Some ''toys'') (Some ''All'') =
     Inr (select_rows example_df [True, False, False])"
    by blast
  from mask_example_toys a f r c p show ?thesis by blast
qed

section \<open>Facts about the reductions, group-by and calculate_rfm\<close>

lemma set_dropna: "set (dropna xs) = {x. Some x \<in> set xs}"
  by (induction xs rule: dropna.induct) auto

lemma sum_list_dropna:
  "sum_list (dropna xs) = sum_list (map (\<lambda>c. case c of None \<Rightarrow> 0 | Some (v::real) \<Rightarrow> v) xs)"
  by (induction xs rule: dropna.induct) auto

lemma length_dropna: "length (dropna xs) = length (filter (\<lambda>c. c \<noteq> None) xs)"
  by (induction xs rule: dropna.induct) auto

lemma series_max_Max:
  "series_max xs = (if set (dropna xs) = {} then None else Some (Max (set (dropna xs))))"
proof (cases "dropna xs")
  case Nil
  then show ?thesis by (simp add: series_max_def)
next
  case (Cons y ys)
  then show ?thesis
    by (simp add: series_max_def Max.set_eq_fold[symmetric])
qed

lemma group_rows: "map snd (filter (\<lambda>kr. fst kr = Some k) (zip (map key rs) rs)) = filter (\<lambda>r. key r = Some k) rs"
  by (induction rs) auto

lemma groupby_key:
  "groupby (map key rs) rs =
   map (\<lambda>k. (k, filter (\<lambda>r. key r = Some k) rs)) (sort (remdups (dropna (map key rs))))"
  by (simp add: groupby_def group_rows)

lemma calculate_rfm_eq:
  assumes "''order_purchase_timestamp'' \<in> set (columns df)"
    and "''customer_unique_id'' \<in> set (columns df)"
    and "''order_id'' \<in> set (columns df)"
    and "''total_value'' \<in> set (columns df)"
  shows "calculate_rfm df =
     Inr (map (\<lambda>k. (k, \<lparr>recency = td_days (sub_cell
                               (series_max (map order_purchase_timestamp (rows df)))
                               (series_max (map order_purchase_timestamp
                                  (filter (\<lambda>r. customer_unique_id r = Some k) (rows df))))),
                         frequency = series_count (map order_id
                                  (filter (\<lambda>r. customer_unique_id r = Some k) (rows df))),
                         monetary = series_sum (map total_value
                                  (filter (\<lambda>r. customer_unique_id r = Some k) (rows df)))\<rparr>))
              (sort (remdups (dropna (map customer_unique_id (rows df))))))"
  using assms by (simp add: calculate_rfm_def series_def groupby_key Let_def comp_def)

lemma set_dropna_map_filter:
  "set (dropna (map f (filter P rs))) = {n. \<exists>r \<in> set rs. P r \<and> f r = Some n}"
  by (auto simp: set_dropna image_iff)

lemma set_dropna_map:
  "set (dropna (map f rs)) = {n. \<exists>r \<in> set rs. f r = Some n}"
  using set_dropna_map_filter[of f "\<lambda>_. True" rs] by simp

lemma recency_eq:
  "td_days (sub_cell (series_max (map f rs)) (series_max (map f (filter P rs)))) =
   (if {n. \<exists>r \<in> set rs. P r \<and> f r = Some n} = {} then None
    else Some ((Max {n. \<exists>r \<in> set rs. f r = Some n}
                - Max {n. \<exists>r \<in> set rs. P r \<and> f r = Some n}) div day_ns))"
proof (cases "{n. \<exists>r \<in> set rs. P r \<and> f r = Some n} = {}")
  case True
  then have "series_max (map f (filter P rs)) = None"
    by (simp add: series_max_Max set_dropna_map_filter)
  with True show ?thesis
    by (cases "series_max (map f rs)") (simp_all add: td_days_def)
next
  case False
  then have a: "{n. \<exists>r \<in> set rs. f r = Some n} \<noteq> {}" by blast
  have 1: "series_max (map f (filter P rs)) = Some (Max {n. \<exists>r \<in> set rs. P r \<and> f r = Some n})"
    using False by (simp only: series_max_Max set_dropna_map_filter if_False)
  have 2: "series_max (map f rs) = Some (Max {n. \<exists>r \<in> set rs. f r = Some n})"
    using a by (simp only: series_max_Max set_dropna_map if_False)
  show ?thesis
    unfolding 1 2 using False by (simp add: td_days_def)
qed

lemma series_count_group:
  "series_count (map f (filter P rs)) = length (filter (\<lambda>r. P r \<and> f r \<noteq> None) rs)"
  by (simp add: series_count_def length_dropna filter_map comp_def conj_commute)

lemma series_sum_group:
  "series_sum (map f rs) = (\<Sum>r\<leftarrow>rs. case f r of None \<Rightarrow> 0 | Some v \<Rightarrow> v)"
  by (simp add: series_sum_def sum_list_dropna comp_def)

lemma example_df_rfm_columns:
  "''order_purchase_timestamp'' \<in> set (columns example_df)"
  "''customer_unique_id'' \<in> set (columns example_df)"
  "''order_id'' \<in> set (columns example_df)"
  "''total_value'' \<in> set (columns example_df)"
  by (simp_all add: example_df_def csv_columns_def)

lemma example_df_rfm:
  "calculate_rfm example_df =
     Inr [(''c1'', \<lparr>recency = Some 0, frequency = 2, monetary = 30\<rparr>),
          (''c2'', \<lparr>recency = None, frequency = 1, monetary = 0\<rparr>)]"
  by (simp add: calculate_rfm_def series_def example_df_rfm_columns)
    (simp add: example_df_def blank_row_def groupby_def
      series_max_def series_count_def series_sum_def td_days_def day_ns_def Let_def)

lemma two_orders_rfm:
  "calculate_rfm (two_orders t) =
     Inr [(''c1'', \<lparr>recency = Some 0, frequency = 2, monetary = 30\<rparr>)]"
  by (simp add: calculate_rfm_def series_def two_orders_def blank_row_def groupby_def
      series_max_def series_count_def series_sum_def td_days_def day_ns_def Let_def)

lemma mset_filter_disjoint:
  "(\<And>r. r \<in> set rs \<Longrightarrow> \<not> (P r \<and> Q r)) \<Longrightarrow>
   mset (filter P rs) + mset (filter Q rs) = mset (filter (\<lambda>r. P r \<or> Q r) rs)"
  by (induction rs) auto

lemma mset_groups:
  "distinct ks \<Longrightarrow>
   mset (concat (map (\<lambda>k. filter (\<lambda>r. key r = Some k) rs) ks)) =
   mset (filter (\<lambda>r. key r \<in> Some ` set ks) rs)"
proof (induction ks)
  case Nil
  then show ?case by simp
next
  case (Cons k ks)
  have "mset (filter (\<lambda>r. key r = Some k) rs) + mset (filter (\<lambda>r. key r \<in> Some ` set ks) rs)
        = mset (filter (\<lambda>r. key r = Some k \<or> key r \<in> Some ` set ks) rs)"
    using Cons.prems by (intro mset_filter_disjoint) auto
  with Cons show ?case by (simp add: image_iff disj_commute eq_commute)
qed

lemma mset_groupby:
  "mset (concat (map (\<lambda>k. filter (\<lambda>r. key r = Some k) rs) (sort (remdups (dropna (map key rs))))))
   = mset (filter (\<lambda>r. key r \<noteq> None) rs)"
proof -
  have d: "distinct (sort (remdups (dropna (map key rs))))" by simp
  have e: "filter (\<lambda>r. key r \<in> Some ` set (sort (remdups (dropna (map key rs))))) rs
        = filter (\<lambda>r. key r \<noteq> None) rs"
    by (rule filter_cong) (force simp: set_dropna image_iff)+
  show ?thesis
    unfolding mset_groups[OF d, where key = key and rs = rs] e ..
qed

section \<open>Claims about calculate_rfm\<close>

text \<open>
  Claim C2. For a table with the four columns that \<open>calculate_rfm\<close> reads, the result has
  exactly one record per customer id present in the table, and the record of customer \<open>c\<close>
  has: as recency the whole days between the latest purchase timestamp of the table and the
  latest purchase timestamp of \<open>c\<close> (missing when no row of \<open>c\<close> has a purchase timestamp);
  as frequency the number of rows of \<open>c\<close> that have an order id; as monetary the sum of
  \<open>total_value\<close> over the rows of \<open>c\<close>, a missing value counting as 0. In particular the
  table of two orders of one customer worth 10 and 20, placed five days apart, gives
  frequency 2, monetary 30 and recency 0, the days since the later of the two purchases.
\<close>

theorem calculate_rfm_records:
  assumes "''order_purchase_timestamp'' \<in> set (columns df)"
    and "''customer_unique_id'' \<in> set (columns df)"
    and "''order_id'' \<in> set (columns df)"
    and "''total_value'' \<in> set (columns df)"
  shows "(\<exists>t. calculate_rfm df = Inr t \<and> distinct (map fst t) \<and>
            set (map fst t) = {c. \<exists>r \<in> set (rows df). customer_unique_id r = Some c} \<and>
            (\<forall>(c, m) \<in> set t.
               recency m =
                 (if {n. \<exists>r \<in> set (rows df). customer_unique_id r = Some c \<and>
                           order_purchase_timestamp r = Some n} = {}
                  then None
                  else Some ((Max {n. \<exists>r \<in> set (rows df). order_purchase_timestamp r = Some n}
                              - Max {n. \<exists>r \<in> set (rows df). customer_unique_id r = Some c \<and>
                                       order_purchase_timestamp r = Some n}) div day_ns)) \<and>
               frequency m =
                 length (filter (\<lambda>r. customer_unique_id r = Some c \<and> order_id r \<noteq> None) (rows df)) \<and>
               monetary m =
                 (\<Sum>r\<leftarrow>filter (\<lambda>r. customer_unique_id r = Some c) (rows df).
                    case total_value r of None \<Rightarrow> 0 | Some v \<Rightarrow> v))) \<and>
         (\<forall>t0. calculate_rfm (two_orders t0) =
                 Inr [(''c1'', \<lparr>recency = Some 0, frequency = 2, monetary = 30\<rparr>)])"
proof -
  let ?R = "\<lambda>k. \<lparr>recency = td_days (sub_cell
                               (series_max (map order_purchase_timestamp (rows df)))
                               (series_max (map order_purchase_timestamp
                                  (filter (\<lambda>r. customer_unique_id r = Some k) (rows df))))),
                    frequency = series_count (map order_id
                                  (filter (\<lambda>r. customer_unique_id r = Some k) (rows df))),
                    monetary = series_sum (map total_value
                                  (filter (\<lambda>r. customer_unique_id r = Some k) (rows df)))\<rparr>"
  let ?t = "map (\<lambda>k. (k, ?R k)) (sort (remdups (dropna (map customer_unique_id (rows df)))))"
  have e: "calculate_rfm df = Inr ?t"
    by (rule calculate_rfm_eq[OF assms])
  have d: "distinct (map fst ?t)"
    by (simp add: comp_def)
  have s: "set (map fst ?t) = {c. \<exists>r \<in> set (rows df). customer_unique_id r = Some c}"
    by (simp add: comp_def set_dropna_map)
  have v: "\<forall>(c, m) \<in> set ?t.
               recency m =
                 (if {n. \<exists>r \<in> set (rows df). customer_unique_id r = Some c \<and>
                           order_purchase_timestamp r = Some n} = {}
                  then None
                  else Some ((Max {n. \<exists>r \<in> set (rows df). order_purchase_timestamp r = Some n}
                              - Max {n. \<exists>r \<in> set (rows df). customer_unique_id r = Some c \<and>
                                       order_purchase_timestamp r = Some n}) div day_ns)) \<and>
               frequency m =
                 length (filter (\<lambda>r. customer_unique_id r = Some c \<and> order_id r \<noteq> None) (rows df)) \<and>
               monetary m =
                 (\<Sum>r\<leftarrow>filter (\<lambda>r. customer_unique_id r = Some c) (rows df).
                    case total_value r of None \<Rightarrow> 0 | Some v \<Rightarrow> v)"
    by (auto simp only: set_map recency_eq series_count_group series_sum_group rfm.simps)
  from e d s v show ?thesis
    using two_orders_rfm by blast
qed

text \<open>The example table, and the table of the two orders placed at times 0 and five days.\<close>

theorem calculate_rfm_records_witness:
  "''order_purchase_timestamp'' \<in> set (columns example_df) \<and>
   ''customer_unique_id'' \<in> set (columns example_df) \<and>
   ''order_id'' \<in> set (columns example_df) \<and>
   ''total_value'' \<in> set (columns example_df) \<and>
   calculate_rfm example_df =
     Inr [(''c1'', \<lparr>recency = Some 0, frequency = 2, monetary = 30\<rparr>),
          (''c2'', \<lparr>recency = None, frequency = 1, monetary = 0\<rparr>)] \<and>
   length (filter (\<lambda>r. customer_unique_id r = Some ''c1'' \<and> order_id r \<noteq> None)
             (rows example_df)) = 2 \<and>
   calculate_rfm (two_orders 0) =
     Inr [(''c1'', \<lparr>recency = Some 0, frequency = 2, monetary = 30\<rparr>)]"
proof -
  note t = calculate_rfm_records[OF example_df_rfm_columns]
  from t have x: "calculate_rfm (two_orders 0) =
     Inr [(''c1'', \<lparr>recency = Some 0, frequency = 2, monetary = 30\<rparr>)]"
    by blast
  from t example_df_rfm
  have "\<forall>(c, m) \<in> set [(''c1'', \<lparr>recency = Some 0, frequency = 2, monetary = 30\<rparr>),
                        (''c2'', \<lparr>recency = None, frequency = 1, monetary = 0\<rparr>)].
          frequency m =
            length (filter (\<lambda>r. customer_unique_id r = Some c \<and> order_id r \<noteq> None) (rows example_df))"
    by auto
  then have f: "length (filter (\<lambda>r. customer_unique_id r = Some ''c1'' \<and> order_id r \<noteq> None)
             (rows example_df)) = 2"
    by simp
  from example_df_rfm_columns example_df_rfm f x show ?thesis by blast
qed

text \<open>
  Claim C6, as stated, fails on the file with a refund and a row without customer id, loaded
  with no filter: the only customer has monetary value -5, which is negative, and the
  monetary values sum to -5 while the \<open>total_value\<close> column sums to 5.
\<close>

theorem rfm_monetary_counterexample:
  "load_data example_parse example_fs ''data/refunds.csv'' = Inr refunds_df \<and>
   calculate_rfm refunds_df =
     Inr [(''c1'', \<lparr>recency = Some 0, frequency = 1, monetary = - 5\<rparr>)] \<and>
   series_sum (map total_value (rows refunds_df)) = 5"
proof -
  have "calculate_rfm refunds_df =
     Inr [(''c1'', \<lparr>recency = Some 0, frequency = 1, monetary = - 5\<rparr>)]"
    by (simp add: calculate_rfm_def series_def refunds_df_def blank_row_def groupby_def
      series_max_def series_count_def series_sum_def td_days_def day_ns_def Let_def)
  moreover have "series_sum (map total_value (rows refunds_df)) = 5"
    by (simp add: series_sum_def refunds_df_def blank_row_def)
  ultimately show ?thesis
    using load_refunds_csv by blast
qed

text \<open>
  Claim C6, amended. For every table with the four columns that \<open>calculate_rfm\<close> reads, the
  monetary value of a customer is the sum of \<open>total_value\<close> over the rows of that customer
  (a missing value counting as 0) and is non-negative when none of these rows has a negative
  \<open>total_value\<close>; and the rows of the customers of the result, taken together, are the rows
  of the table that have a customer id, each exactly once. So the monetary values add up the
  \<open>total_value\<close> of exactly the rows with a customer id, each in one customer's sum, and no
  row without one. That the sum of the monetary values equals the sum of these total values
  is not stated: the program adds the numbers in different groupings in binary floating
  point.
\<close>

theorem calculate_rfm_monetary:
  assumes "''order_purchase_timestamp'' \<in> set (columns df)"
    and "''customer_unique_id'' \<in> set (columns df)"
    and "''order_id'' \<in> set (columns df)"
    and "''total_value'' \<in> set (columns df)"
  shows "\<exists>t. calculate_rfm df = Inr t \<and>
           (\<forall>(c, m) \<in> set t.
              monetary m =
                (\<Sum>r\<leftarrow>filter (\<lambda>r. customer_unique_id r = Some c) (rows df).
                   case total_value r of None \<Rightarrow> 0 | Some v \<Rightarrow> v) \<and>
              ((\<forall>r \<in> set (rows df). customer_unique_id r = Some c \<longrightarrow>
                  (case total_value r of None \<Rightarrow> True | Some v \<Rightarrow> 0 \<le> v)) \<longrightarrow>
               0 \<le> monetary m)) \<and>
           mset (concat (map (\<lambda>x. filter (\<lambda>r. customer_unique_id r = Some (fst x)) (rows df)) t)) =
             mset (filter (\<lambda>r. customer_unique_id r \<noteq> None) (rows df))"
proof -
  let ?R = "\<lambda>k. \<lparr>recency = td_days (sub_cell
                               (series_max (map order_purchase_timestamp (rows df)))
                               (series_max (map order_purchase_timestamp
                                  (filter (\<lambda>r. customer_unique_id r = Some k) (rows df))))),
                    frequency = series_count (map order_id
                                  (filter (\<lambda>r. customer_unique_id r = Some k) (rows df))),
                    monetary = series_sum (map total_value
                                  (filter (\<lambda>r. customer_unique_id r = Some k) (rows df)))\<rparr>"
  let ?t = "map (\<lambda>k. (k, ?R k)) (sort (remdups (dropna (map customer_unique_id (rows df)))))"
  have e: "calculate_rfm df = Inr ?t"
    by (rule calculate_rfm_eq[OF assms])
  have m: "monetary m =
        (\<Sum>r\<leftarrow>filter (\<lambda>r. customer_unique_id r = Some c) (rows df).
            case total_value r of None \<Rightarrow> 0 | Some v \<Rightarrow> v)"
    if "(c, m) \<in> set ?t" for c m
    using that by (auto simp: series_sum_group)
  have n: "0 \<le> monetary m"
    if "(c, m) \<in> set ?t"
      and "\<forall>r \<in> set (rows df). customer_unique_id r = Some c \<longrightarrow>
                 (case total_value r of None \<Rightarrow> True | Some v \<Rightarrow> 0 \<le> v)"
    for c m
    unfolding m[OF that(1)] using that(2)
    by (intro sum_list_nonneg) (auto split: option.splits)
  have p: "mset (concat (map (\<lambda>x. filter (\<lambda>r. customer_unique_id r = Some (fst x)) (rows df)) ?t)) =
             mset (filter (\<lambda>r. customer_unique_id r \<noteq> None) (rows df))"
    by (simp only: map_map comp_def fst_conv mset_groupby)
  from e m n p show ?thesis by blast
qed

text \<open>The example table: customer c1 has the total values 10 and 20.\<close>

theorem calculate_rfm_monetary_witness:
  "''order_purchase_timestamp'' \<in> set (columns example_df) \<and>
   ''customer_unique_id'' \<in> set (columns example_df) \<and>
   ''order_id'' \<in> set (columns example_df) \<and>
   ''total_value'' \<in> set (columns example_df) \<and>
   calculate_rfm example_df =
     Inr [(''c1'', \<lparr>recency = Some 0, frequency = 2, monetary = 30\<rparr>),
          (''c2'', \<lparr>recency = None, frequency = 1, monetary = 0\<rparr>)] \<and>
   (\<Sum>r\<leftarrow>filter (\<lambda>r. customer_unique_id r = Some ''c1'') (rows example_df).
       case total_value r of None \<Rightarrow> 0 | Some v \<Rightarrow> v) = 30 \<and>
   mset (filter (\<lambda>r. customer_unique_id r = Some ''c1'') (rows example_df)
         @ filter (\<lambda>r. customer_unique_id r = Some ''c2'') (rows example_df)) =
     mset (filter (\<lambda>r. customer_unique_id r \<noteq> None) (rows example_df))"
proof -
  note t = calculate_rfm_monetary[OF example_df_rfm_columns]
  from t example_df_rfm
  have a: "\<forall>(c, m) \<in> set [(''c1'', \<lparr>recency = Some 0, frequency = 2, monetary = 30\<rparr>),
                           (''c2'', \<lparr>recency = None, frequency = 1, monetary = 0\<rparr>)].
             monetary m =
               (\<Sum>r\<leftarrow>filter (\<lambda>r. customer_unique_id r = Some c) (rows example_df).
                  case total_value r of None \<Rightarrow> 0 | Some v \<Rightarrow> v)"
    and b: "mset (concat (map (\<lambda>x. filter (\<lambda>r. customer_unique_id r = Some (fst x)) (rows example_df))
                     [(''c1'', \<lparr>recency = Some 0, frequency = 2, monetary = 30\<rparr>),
                      (''c2'', \<lparr>recency = None, frequency = 1, monetary = 0\<rparr>)])) =
            mset (filter (\<lambda>r. customer_unique_id r \<noteq> None) (rows example_df))"
    by auto
  from a have 1: "(\<Sum>r\<leftarrow>filter (\<lambda>r. customer_unique_id r = Some ''c1'') (rows example_df).
       case total_value r of None \<Rightarrow> 0 | Some v \<Rightarrow> v) = 30"
    by simp
  from b have 2: "mset (filter (\<lambda>r. customer_unique_id r = Some ''c1'') (rows example_df)
         @ filter (\<lambda>r. customer_unique_id r = Some ''c2'') (rows example_df)) =
     mset (filter (\<lambda>r. customer_unique_id r \<noteq> None) (rows example_df))"
    by simp
  from example_df_rfm_columns example_df_rfm 1 2 show ?thesis by blast
qed

section \<open>Claim about the empty table\<close>

text \<open>
  In \<^verbatim>\<open>app.py\<close> the scatter plot of \<^verbatim>\<open>create_product_insights\<close> is given the hover column
  \<^verbatim>\<open>product_category_name\<close>, which is the index of \<^verbatim>\<open>category_sales\<close> and not one of its
  columns: the function raises ValueError on every table that has the columns it reads.
\<close>

lemma product_insights_app_raises:
  assumes "''product_category_name'' \<in> set (columns df)"
    and "''total_value'' \<in> set (columns df)"
    and "''delivery_time'' \<in> set (columns df)"
    and "''review_score'' \<in> set (columns df)"
  shows "create_product_insights tie df = Inl (ValueError ''hover_data_0'')"
  using assms by (simp add: create_product_insights_def product_insights_def series_def Let_def)

text \<open>
  On the example table the instalment group 2 has no total value, so its mean is missing and
  the scatter plot of \<^verbatim>\<open>create_payment_analysis\<close> rejects the marker size.
\<close>

lemma payment_analysis_example:
  "create_payment_analysis example_df = Inl (ValueError ''marker.size'')"
  by (simp add: create_payment_analysis_def series_def example_df_def csv_columns_def)
    (simp add: groupby_def blank_row_def series_mean_def px_marker_size_def Let_def)

lemma filtered_example_empty:
  "filtered_df example_df [10, 20] (Some ''All'') (Some ''All'') = Inr (example_df\<lparr>rows := []\<rparr>)"
  by (simp add: filtered_df_def mask_def series_def getitem_def and_mask_def select_rows_def
      example_df_columns)
    (simp add: example_df_def blank_row_def dt_date_def day_ns_def)

text \<open>
  Claim C7, as stated, fails on the example table filtered to a date range in which it has
  no purchase: \<^verbatim>\<open>create_product_insights\<close> of \<^verbatim>\<open>app.py\<close> raises ValueError, and the
  overview metrics are not an empty result but four values: no order, revenue 0 and two
  missing means.
\<close>

theorem aggregations_of_empty_table_counterexample:
  "filtered_df example_df [10, 20] (Some ''All'') (Some ''All'') = Inr (example_df\<lparr>rows := []\<rparr>) \<and>
   create_product_insights keep_order (example_df\<lparr>rows := []\<rparr>) = Inl (ValueError ''hover_data_0'') \<and>
   create_overview_metrics (example_df\<lparr>rows := []\<rparr>) =
     Inr \<lparr>total_orders = 0, total_revenue = 0, avg_order_value = None,
          avg_delivery_time = None\<rparr>"
proof -
  have "create_product_insights keep_order (example_df\<lparr>rows := []\<rparr>) = Inl (ValueError ''hover_data_0'')"
    by (rule product_insights_app_raises) (simp_all add: example_df_def csv_columns_def)
  moreover have "create_overview_metrics (example_df\<lparr>rows := []\<rparr>) =
     Inr \<lparr>total_orders = 0, total_revenue = 0, avg_order_value = None,
          avg_delivery_time = None\<rparr>"
    by (simp add: create_overview_metrics_def series_def series_nunique_def series_sum_def
        series_mean_def example_df_def csv_columns_def)
  ultimately show ?thesis
    using filtered_example_empty by blast
qed

text \<open>
  Claim C7, amended. For a table without rows that has the columns read, the overview
  metrics do not raise and are no order, revenue 0 and two missing means; and the daily
  series, the two demographics tables, the two payment tables, the RFM table and its three
  top-five selections do not raise and are empty, whatever order the sorts give to equal
  values. Nothing is stated about the category insights.
\<close>

theorem aggregations_of_empty_table:
  assumes "rows df = []"
    and "set [''order_id'', ''customer_unique_id'', ''customer_state'', ''customer_city'',
              ''payment_type'', ''payment_installments'', ''review_score'',
              ''order_purchase_timestamp'', ''total_value'', ''delivery_time'']
           \<subseteq> set (columns df)"
  shows "create_overview_metrics df =
           Inr \<lparr>total_orders = 0, total_revenue = 0, avg_order_value = None,
                avg_delivery_time = None\<rparr> \<and>
         create_time_series df = Inr [] \<and>
         create_customer_demographics tie df = Inr ([], []) \<and>
         create_payment_analysis df = Inr ([], []) \<and>
         calculate_rfm df = Inr [] \<and>
         create_rfm_analysis tie' df = Inr ([], [], [])"
proof -
  have r: "calculate_rfm df = Inr []"
    using assms by (simp add: calculate_rfm_def series_def groupby_def)
  have "create_overview_metrics df =
           Inr \<lparr>total_orders = 0, total_revenue = 0, avg_order_value = None,
                avg_delivery_time = None\<rparr>"
    using assms
    by (simp add: create_overview_metrics_def series_def series_nunique_def series_sum_def
        series_mean_def)
  moreover have "create_time_series df = Inr []"
    using assms by (simp add: create_time_series_def series_def groupby_def)
  moreover have "create_customer_demographics tie df = Inr ([], [])"
    using assms
    by (simp add: create_customer_demographics_def series_def groupby_def
        sort_values_ascending_def sort_values_descending_def nlargest_def)
  moreover have "create_payment_analysis df = Inr ([], [])"
    using assms
    by (simp add: create_payment_analysis_def series_def groupby_def px_marker_size_def)
  moreover have "create_rfm_analysis tie' df = Inr ([], [], [])"
    by (simp add: create_rfm_analysis_def r nsmallest_def nlargest_def
        sort_values_ascending_def sort_values_descending_def)
  ultimately show ?thesis
    using r by blast
qed

text \<open>The example table filtered to a date range in which it has no purchase.\<close>

theorem aggregations_of_empty_table_witness:
  "filtered_df example_df [10, 20] (Some ''All'') (Some ''All'') = Inr (example_df\<lparr>rows := []\<rparr>) \<and>
   rows (example_df\<lparr>rows := []\<rparr>) = [] \<and>
   set [''order_id'', ''customer_unique_id'', ''customer_state'', ''customer_city'',
        ''payment_type'', ''payment_installments'', ''review_score'',
        ''order_purchase_timestamp'', ''total_value'', ''delivery_time'']
     \<subseteq> set (columns (example_df\<lparr>rows := []\<rparr>)) \<and>
   create_overview_metrics (example_df\<lparr>rows := []\<rparr>) =
     Inr \<lparr>total_orders = 0, total_revenue = 0, avg_order_value = None,
          avg_delivery_time = None\<rparr> \<and>
   create_time_series (example_df\<lparr>rows := []\<rparr>) = Inr [] \<and>
   create_customer_demographics keep_order_by (example_df\<lparr>rows := []\<rparr>) = Inr ([], []) \<and>
   create_payment_analysis (example_df\<lparr>rows := []\<rparr>) = Inr ([], []) \<and>
   calculate_rfm (example_df\<lparr>rows := []\<rparr>) = Inr [] \<and>
   create_rfm_analysis keep_order_by (example_df\<lparr>rows := []\<rparr>) = Inr ([], [], [])"
proof -
  have a: "rows (example_df\<lparr>rows := []\<rparr>) = []" by simp
  have b: "set [''order_id'', ''customer_unique_id'', ''customer_state'', ''customer_city'',
        ''payment_type'', ''payment_installments'', ''review_score'',
        ''order_purchase_timestamp'', ''total_value'', ''delivery_time'']
     \<subseteq> set (columns (example_df\<lparr>rows := []\<rparr>))"
    by (simp add: example_df_def csv_columns_def)
  from aggregations_of_empty_table[OF a b, of keep_order_by keep_order_by] filtered_example_empty a b
  show ?thesis
    by blast
qed

end
